theory Spec2Isabelle
  imports Complex_Main "HOL-Library.AList" "HOL-Library.Log_Nat"
begin

section \<open>Time, numbers and transactions\<close>

text \<open>
  A JavaScript \<open>Date\<close> is its number of milliseconds since the epoch, an integer.
\<close>

type_synonym time = int

definition ms_per_day :: int where
  "ms_per_day = 86400000"

text \<open>
  The server's time zone, as the two conversions of the language between an instant and
  the local wall-clock time: \<open>LocalTime\<close> and \<open>UTC\<close>.
\<close>

record zone =
  local_time :: "time \<Rightarrow> time"
  utc :: "time \<Rightarrow> time"

subsection \<open>Double-precision arithmetic\<close>

text \<open>
  A JavaScript number is an IEEE 754 double. A finite double is the rational it
  stands for, and an arithmetic operation is the exact operation followed by rounding
  to the nearest double, a tie going to the even significand (53 bits, exponents from
  \<open>-1022\<close>, subnormal numbers below). The infinities and \<open>NaN\<close> are outside the model:
  amounts and their sums stay below \<open>2 ^ 1024\<close> in magnitude.
\<close>

definition pow2 :: "int \<Rightarrow> rat" where
  "pow2 k = 2 powi k"

text \<open>The exponent \<open>e\<close> of a number other than zero: \<open>2 ^ e \<le> \<bar>x\<bar> < 2 ^ (e + 1)\<close>.\<close>

definition exponent :: "rat \<Rightarrow> int" where
  "exponent x =
     (let (p, q) = quotient_of \<bar>x\<bar>; d = bitlen p - bitlen q
      in if pow2 d \<le> \<bar>x\<bar> then d else d - 1)"

text \<open>The nearest integer, a tie going to the even one.\<close>

definition round_even :: "rat \<Rightarrow> int" where
  "round_even m =
     (let f = \<lfloor>m\<rfloor>; r = m - of_int f
      in if r < 1 / 2 then f else if 1 / 2 < r then f + 1 else if even f then f else f + 1)"

text \<open>The distance between neighbouring doubles at \<open>x\<close>.\<close>

definition ulp :: "rat \<Rightarrow> rat" where
  "ulp x = pow2 (max (exponent x) (- 1022) - 52)"

definition to_double :: "rat \<Rightarrow> rat" where
  "to_double x = (if x = 0 then 0 else of_int (round_even (x / ulp x)) * ulp x)"

text \<open>\<open>a + b\<close> and \<open>a / b\<close> on doubles.\<close>

definition double_add :: "rat \<Rightarrow> rat \<Rightarrow> rat" where
  "double_add a b = to_double (a + b)"

definition double_div :: "rat \<Rightarrow> rat \<Rightarrow> rat" where
  "double_div a b = to_double (a / b)"

subsection \<open>Transactions\<close>

text \<open>
  The amount of a row is the double it holds; a rational that is not a double stands
  for the double nearest to it, as a decimal literal does.
\<close>

record tx_base =
  date :: time
  amount :: rat

text \<open>
  A row as \<open>dbTransactions\<close> or the fixture file \<open>data/transactions.json\<close>
  delivers it. The fixture file is not part of the sources; it is a parameter holding
  rows of this shape. A field a row may lack is an \<open>option\<close>.
\<close>

record raw_tx = tx_base +
  merchant_raw :: "string option"
  category_raw :: "string option"
  account_type_raw :: "string option"
  type_raw :: "string option"
  isRecurring_raw :: "bool option"
  is_recurring_raw :: "bool option"

record norm_tx = tx_base +
  merchant :: string
  category :: string
  account_type :: string
  is_recurring :: bool

section \<open>MetricsCalculator\<close>

text \<open>
  \<open>Math.round\<close>: the nearest integer, a tie going towards plus infinity. It is computed
  exactly on the double it is given.
\<close>

definition math_round :: "rat \<Rightarrow> int" where
  "math_round x = \<lfloor>x + 1 / 2\<rfloor>"

text \<open>
  \<open>from.setDate(now.getDate() - 90)\<close>: \<open>setDate\<close> takes the local time of \<open>now\<close>, moves
  its day number back by ninety and keeps the time within the day, and converts the
  result back to an instant.
\<close>

definition window_start :: "zone \<Rightarrow> time \<Rightarrow> time" where
  "window_start z now = utc z (local_time z now - 90 * ms_per_day)"

definition monthlyIncomeArray :: "zone \<Rightarrow> time \<Rightarrow> ('a tx_base_scheme) list \<Rightarrow> int" where
  "monthlyIncomeArray z now tx =
     (let from = window_start z now;
          pos = foldl double_add 0
                  (map (\<lambda>t. to_double (amount t))
                     (filter (\<lambda>t. from \<le> date t \<and> 0 < to_double (amount t)) tx))
      in math_round (double_div pos 3))"

definition monthlyBaselineSpendArray :: "zone \<Rightarrow> time \<Rightarrow> ('a tx_base_scheme) list \<Rightarrow> int" where
  "monthlyBaselineSpendArray z now tx =
     (let from = window_start z now;
          neg = foldl double_add 0
                  (map (\<lambda>t. to_double (amount t))
                     (filter (\<lambda>t. from \<le> date t \<and> to_double (amount t) < 0) tx))
      in \<bar>math_round (double_div neg 3)\<bar>)"

subsection \<open>The metrics as the specification words them\<close>








subsection \<open>The doubles the code rounds\<close>



section \<open>JSON and JavaScript values\<close>

text \<open>
  A response body as \<open>axios\<close> hands it over (\<open>r.data\<close>) is a parsed JSON value; a body
  that is not JSON arrives as a string. An object is an association list read with
  \<open>map_of\<close>. A JavaScript value that may be \<open>undefined\<close> is a \<open>json option\<close>,
  \<open>None\<close> standing for \<open>undefined\<close>.
\<close>

datatype json =
    JNull
  | JBool bool
  | JNum rat
  | JStr string
  | JArr "json list"
  | JObj "(string \<times> json) list"

type_synonym js = "json option"

text \<open>
  A thrown value, with the name and the message of a JavaScript \<open>Error\<close>. The
  wording of a message is the engine's or the library's; the model keeps the name and
  an abridged message.
\<close>

datatype error = JsError (err_name: string) (err_message: string)

definition type_error :: "string \<Rightarrow> error" where
  "type_error what = JsError ''TypeError'' (''Cannot read properties of '' @ what)"

text \<open>
  \<open>v.k\<close> for the property names the server reads. None of them is inherited from a
  prototype except \<open>length\<close> of arrays and strings. Reading a property of \<open>null\<close> or
  \<open>undefined\<close> throws.
\<close>

fun get_prop :: "js \<Rightarrow> string \<Rightarrow> error + js" where
  "get_prop None k = Inl (type_error ''undefined'')"
| "get_prop (Some JNull) k = Inl (type_error ''null'')"
| "get_prop (Some (JObj fs)) k = Inr (map_of fs k)"
| "get_prop (Some (JArr xs)) k =
     Inr (if k = ''length'' then Some (JNum (of_nat (length xs))) else None)"
| "get_prop (Some (JStr s)) k =
     Inr (if k = ''length'' then Some (JNum (of_nat (length s))) else None)"
| "get_prop (Some (JBool b)) k = Inr None"
| "get_prop (Some (JNum n)) k = Inr None"

text \<open>\<open>v.k1.k2\<close>...: the reads from left to right, the first throw ending the chain.\<close>

fun get_path :: "js \<Rightarrow> string list \<Rightarrow> error + js" where
  "get_path v [] = Inr v"
| "get_path v (k # ks) = (case get_prop v k of Inl e \<Rightarrow> Inl e | Inr w \<Rightarrow> get_path w ks)"

text \<open>\<open>v[0]\<close>.\<close>

fun get_index0 :: "js \<Rightarrow> error + js" where
  "get_index0 None = Inl (type_error ''undefined'')"
| "get_index0 (Some JNull) = Inl (type_error ''null'')"
| "get_index0 (Some (JArr xs)) = Inr (case xs of [] \<Rightarrow> None | x # _ \<Rightarrow> Some x)"
| "get_index0 (Some (JStr s)) = Inr (case s of [] \<Rightarrow> None | c # _ \<Rightarrow> Some (JStr [c]))"
| "get_index0 (Some (JObj fs)) = Inr (map_of fs ''0'')"
| "get_index0 (Some (JBool b)) = Inr None"
| "get_index0 (Some (JNum n)) = Inr None"

definition nullish :: "js \<Rightarrow> bool" where
  "nullish v \<longleftrightarrow> v = None \<or> v = Some JNull"

text \<open>\<open>v?.k\<close>.\<close>

definition opt_prop :: "js \<Rightarrow> string \<Rightarrow> js" where
  "opt_prop v k =
     (if nullish v then None else (case get_prop v k of Inl _ \<Rightarrow> None | Inr w \<Rightarrow> w))"

fun truthy :: "js \<Rightarrow> bool" where
  "truthy None = False"
| "truthy (Some JNull) = False"
| "truthy (Some (JBool b)) = b"
| "truthy (Some (JNum n)) = (n \<noteq> 0)"
| "truthy (Some (JStr s)) = (s \<noteq> [])"
| "truthy (Some (JArr xs)) = True"
| "truthy (Some (JObj fs)) = True"

text \<open>\<open>a || b\<close>.\<close>

definition js_or :: "js \<Rightarrow> js \<Rightarrow> js" where
  "js_or a b = (if truthy a then a else b)"

fun isArray :: "js \<Rightarrow> bool" where
  "isArray (Some (JArr xs)) = True"
| "isArray v = False"

text \<open>
  An object literal on its way out, to the client through \<open>res.json\<close> or to a provider
  through \<open>axios\<close>: \<open>JSON.stringify\<close> leaves out every member whose value is
  \<open>undefined\<close>.
\<close>

definition obj :: "(string \<times> js) list \<Rightarrow> json" where
  "obj fs = JObj (List.map_filter (\<lambda>(k, v). map_option (Pair k) v) fs)"

definition num :: "int \<Rightarrow> js" where
  "num i = Some (JNum (of_int i))"

text \<open>Decimal numerals, the property names of array elements and string characters.\<close>

definition digit_char :: "nat \<Rightarrow> char" where
  "digit_char d = char_of (48 + d)"

function dec :: "nat \<Rightarrow> string" where
  "dec n = (if n < 10 then [digit_char n] else dec (n div 10) @ [digit_char (n mod 10)])"
  by pat_completeness auto
termination
  by (relation "measure id") auto

declare dec.simps [simp del]

text \<open>\<open>{...v}\<close>: the own enumerable properties of \<open>v\<close>.\<close>

fun spread :: "json \<Rightarrow> (string \<times> json) list" where
  "spread (JObj fs) = fs"
| "spread (JArr xs) = zip (map dec [0..<length xs]) xs"
| "spread (JStr s) = zip (map dec [0..<length s]) (map (\<lambda>c. JStr [c]) s)"
| "spread JNull = []"
| "spread (JBool b) = []"
| "spread (JNum n) = []"

section \<open>Responses, provider calls and events\<close>

record response =
  status :: nat
  body :: json

text \<open>\<open>res.json(b)\<close> and \<open>res.status(c).json(b)\<close>.\<close>

definition res_json :: "json \<Rightarrow> response" where
  "res_json b = \<lparr>status = 200, body = b\<rparr>"

definition res_status_json :: "nat \<Rightarrow> json \<Rightarrow> response" where
  "res_status_json c b = \<lparr>status = c, body = b\<rparr>"

text \<open>
  What the client gets from a handler: the response it sent, or none when the
  \<open>async\<close> handler threw outside every \<open>try\<close> (its promise is rejected and nothing is
  sent).
\<close>

datatype reply = Sent response | NoReply error

definition body_field :: "response \<Rightarrow> string \<Rightarrow> js" where
  "body_field r k = (case body r of JObj fs \<Rightarrow> map_of fs k | _ \<Rightarrow> None)"

definition has_key :: "response \<Rightarrow> string \<Rightarrow> bool" where
  "has_key r k \<longleftrightarrow> body_field r k \<noteq> None"

text \<open>
  The upstream endpoints: \<open>/ai/subscriptions/detect\<close>, \<open>/ai/spend/insights\<close>,
  \<open>/ai/spend/movers\<close>, \<open>/ai/credit/repayment\<close>, \<open>/ai/narrative\<close>,
  \<open>/ai/explain/credit\<close>, \<open>/ai/untouchable/forecast\<close>, \<open>/ai/insurance/nudge\<close>.
\<close>

datatype endpoint =
    Subscriptions | Spikes | Movers | CreditRepayment | Narrative
  | ExplainCredit | Forecast | InsuranceNudge

text \<open>A request body: \<open>{transactions: norm}\<close>, or any other JSON.\<close>

datatype payload = Transactions "norm_tx list" | Json json

text \<open>
  What a handler does besides answering, in the order it does it: a database read, a
  provider call going out, an \<open>await\<close> resuming once the calls it waits for have
  settled (fulfilled or rejected), the budget write.
\<close>

datatype event =
    TransactionsRead
  | AccountRead
  | Issued endpoint payload
  | Settled "endpoint list"
  | BudgetUpsert string js

record account =
  balance :: rat
  apr :: "rat option"
  creditLimit :: "rat option"

type_synonym budget_table = "string \<rightharpoonup> rat"

text \<open>
  Everything outside the server that one request meets. A call of \<open>axios\<close> is settled by
  \<open>upstream\<close>: \<open>Inl\<close> is a rejected promise (time-out, no connection, a status outside
  2xx), \<open>Inr\<close> the body of a 2xx response. \<open>ledger\<close> is what \<open>dbTransactions\<close> returns or
  throws, \<open>credit_account\<close> what \<open>prisma.account.findFirst\<close> returns or throws, and
  \<open>budget_upsert\<close> is \<open>prisma.budget.upsert\<close> for a user and a percent, returning the
  error it throws, if any, and the table it leaves. The two readings of the clock in
  one request are taken as one instant, \<open>current_time\<close>; \<open>zone\<close> is the server's time zone. The handlers run behind
  \<open>requireAuth\<close>, so \<open>user_id\<close> is the identifier of the session.
\<close>

record env =
  zone :: zone
  current_time :: time
  user_id :: string
  req_body :: json
  ledger :: "error + raw_tx list"
  fixture_tx :: "raw_tx list"
  credit_account :: "error + account option"
  upstream :: "endpoint \<Rightarrow> payload \<Rightarrow> error + json"
  budget_upsert :: "string \<Rightarrow> js \<Rightarrow> budget_table \<Rightarrow> error option \<times> budget_table"


section \<open>The dashboard summary\<close>

text \<open>
  \<open>new Date(t.date).toISOString().slice(0,10)\<close> keeps the calendar day in UTC; read
  again by \<open>new Date\<close> in the metrics it is midnight UTC of that day. Years have four
  digits.
\<close>

definition to_iso_date :: "time \<Rightarrow> time" where
  "to_iso_date d = (d div ms_per_day) * ms_per_day"

text \<open>\<open>s || d\<close> on strings: a missing and an empty string are both falsy.\<close>

definition str_or :: "string option \<Rightarrow> string \<Rightarrow> string" where
  "str_or s d = (case s of None \<Rightarrow> d | Some x \<Rightarrow> if x = [] then d else x)"

definition normalize :: "raw_tx \<Rightarrow> norm_tx" where
  "normalize t =
     \<lparr>date = to_iso_date (date t),
      amount = amount t,
      merchant = str_or (merchant_raw t) ''Unknown'',
      category = str_or (category_raw t) ''other'',
      account_type = str_or (account_type_raw t) (str_or (type_raw t) ''checking''),
      is_recurring =
        (case isRecurring_raw t of
           Some b \<Rightarrow> b
         | None \<Rightarrow> (case is_recurring_raw t of Some b \<Rightarrow> b | None \<Rightarrow> False))\<rparr>"

text \<open>\<open>txns.length ? txns : FIXTURE_TX\<close>.\<close>

definition tx_or_fixture :: "env \<Rightarrow> raw_tx list \<Rightarrow> raw_tx list" where
  "tx_or_fixture e txns = (if txns \<noteq> [] then txns else fixture_tx e)"

text \<open>
  \<open>p.status === 'fulfilled' ? p.value.data.field : []\<close> for one result of
  \<open>Promise.allSettled\<close>.
\<close>

definition reduce_settled :: "string \<Rightarrow> error + json \<Rightarrow> error + js" where
  "reduce_settled field p =
     (case p of Inl _ \<Rightarrow> Inr (Some (JArr [])) | Inr d \<Rightarrow> get_prop (Some d) field)"

definition credit_fallback :: json where
  "credit_fallback =
     JObj [(''utilization'', JNum 39),
           (''alerts'', JArr [JStr
              ''Demo default: pay a small amount before statement close to reduce utilization.''])]"

definition positive_or :: "rat option \<Rightarrow> rat \<Rightarrow> rat" where
  "positive_or v d = (case v of None \<Rightarrow> d | Some x \<Rightarrow> if 0 < x then x else d)"

definition credit_payload :: "account option \<Rightarrow> json" where
  "credit_payload acct =
     (case acct of
        Some a \<Rightarrow>
          obj [(''balance'', Some (JNum (positive_or (Some (balance a)) 780))),
               (''apr_annual'', Some (JNum (positive_or (apr a) (2399 / 100)))),
               (''min_payment'', Some (JNum 35)),
               (''extra_payment'', Some (JNum 0)),
               (''credit_limit'', Some (JNum (positive_or (creditLimit a) 2000)))]
      | None \<Rightarrow>
          obj [(''balance'', Some (JNum 780)),
               (''apr_annual'', Some (JNum (2399 / 100))),
               (''min_payment'', Some (JNum 35)),
               (''extra_payment'', Some (JNum 0)),
               (''credit_limit'', Some (JNum 2000))])"

text \<open>Step 5 of the handler: the value of \<open>credit\<close> after its \<open>try\<close>, and what was done.\<close>

definition credit_guardrails :: "env \<Rightarrow> js \<times> event list" where
  "credit_guardrails e =
     (case credit_account e of
        Inl _ \<Rightarrow> (Some credit_fallback, [AccountRead])
      | Inr acct \<Rightarrow>
          (let payload = Json (credit_payload acct);
               tr = [AccountRead, Issued CreditRepayment payload, Settled [CreditRepayment]]
           in case upstream e CreditRepayment payload of
                Inl _ \<Rightarrow> (Some credit_fallback, tr)
              | Inr d \<Rightarrow>
                  (case get_prop (Some d) ''guardrails'' of
                     Inl _ \<Rightarrow> (Some credit_fallback, tr)
                   | Inr g \<Rightarrow> (g, tr))))"

text \<open>The object literal \<open>metrics\<close>, its members evaluated in order.\<close>

definition narrative_metrics :: "int \<Rightarrow> int \<Rightarrow> js \<Rightarrow> js \<Rightarrow> js \<Rightarrow> error + json" where
  "narrative_metrics income baseline credit subscriptions spikes =
     (case get_prop credit ''utilization'' of
        Inl err \<Rightarrow> Inl err
      | Inr utilization \<Rightarrow>
     (case get_prop subscriptions ''length'' of
        Inl err \<Rightarrow> Inl err
      | Inr count \<Rightarrow>
     (case get_index0 spikes of
        Inl err \<Rightarrow> Inl err
      | Inr spike0 \<Rightarrow>
          Inr (obj [(''income'', num income),
                    (''baseline'', num baseline),
                    (''credit_utilization'', utilization),
                    (''subscriptions_count'', count),
                    (''top_spike_category'', js_or (opt_prop spike0 ''category'') (Some JNull)),
                    (''untouchable_pct'', Some (JNum (1 / 5)))]))))"

definition stable_week :: js where
  "stable_week = Some (JStr ''Stable week.'')"

text \<open>Step 6: the value of \<open>weekly_narrative\<close> after its \<open>try\<close>, and what was done.\<close>

definition weekly_narrative :: "env \<Rightarrow> int \<Rightarrow> int \<Rightarrow> js \<Rightarrow> js \<Rightarrow> js \<Rightarrow> js \<times> event list" where
  "weekly_narrative e income baseline credit subscriptions spikes =
     (case narrative_metrics income baseline credit subscriptions spikes of
        Inl _ \<Rightarrow> (stable_week, [])
      | Inr metrics \<Rightarrow>
          (let payload = Json (obj [(''metrics'', Some metrics)]);
               tr = [Issued Narrative payload, Settled [Narrative]]
           in case upstream e Narrative payload of
                Inl _ \<Rightarrow> (stable_week, tr)
              | Inr d \<Rightarrow>
                  (case get_prop (Some d) ''narrative'' of
                     Inl _ \<Rightarrow> (stable_week, tr)
                   | Inr n \<Rightarrow> (js_or n stable_week, tr))))"

text \<open>\<open>String(err?.message || err)\<close>.\<close>

definition err_detail :: "error \<Rightarrow> string" where
  "err_detail err = (if err_message err \<noteq> [] then err_message err else err_name err)"

definition summary_failed :: "error \<Rightarrow> response" where
  "summary_failed err =
     res_status_json 500
       (obj [(''error'', Some (JStr ''summary_failed'')),
             (''detail'', Some (JStr (err_detail err)))])"

text \<open>
  The three calls of the group go out one after the other, then the handler waits for
  all of them in \<open>Promise.allSettled\<close>.
\<close>

definition group_events :: "payload \<Rightarrow> event list" where
  "group_events p =
     [Issued Subscriptions p, Issued Spikes p, Issued Movers p,
      Settled [Subscriptions, Spikes, Movers]]"

definition dashboard_summary :: "env \<Rightarrow> response \<times> event list" where
  "dashboard_summary e =
     (case ledger e of
        Inl err \<Rightarrow> (summary_failed err, [TransactionsRead])
      | Inr txns \<Rightarrow>
          (let norm = map normalize (tx_or_fixture e txns);
               income = monthlyIncomeArray (zone e) (current_time e) norm;
               baseline = monthlyBaselineSpendArray (zone e) (current_time e) norm;
               p = Transactions norm;
               tr1 = TransactionsRead # group_events p
           in case reduce_settled ''subscriptions'' (upstream e Subscriptions p) of
                Inl err \<Rightarrow> (summary_failed err, tr1)
              | Inr subscriptions \<Rightarrow>
             (case reduce_settled ''spikes'' (upstream e Spikes p) of
                Inl err \<Rightarrow> (summary_failed err, tr1)
              | Inr spikes \<Rightarrow>
             (case reduce_settled ''movers'' (upstream e Movers p) of
                Inl err \<Rightarrow> (summary_failed err, tr1)
              | Inr movers \<Rightarrow>
                  (let (credit, tr2) = credit_guardrails e;
                       (narrative, tr3) =
                          weekly_narrative e income baseline credit subscriptions spikes
                   in (res_json
                         (obj [(''income'', num income),
                               (''baseline'', num baseline),
                               (''credit'', credit),
                               (''subscriptions'', subscriptions),
                               (''spikes'', spikes),
                               (''movers'', movers),
                               (''weekly_narrative'', narrative)]),
                       tr1 @ tr2 @ tr3))))))"

definition summary_keys :: "string list" where
  "summary_keys =
     [''income'', ''baseline'', ''credit'', ''subscriptions'', ''spikes'', ''movers'',
      ''weekly_narrative'']"


section \<open>The untouchable forecast\<close>

text \<open>A destructuring default, \<open>{ k = d }\<close>: it applies when the member is \<open>undefined\<close>.\<close>

definition with_default :: "js \<Rightarrow> json \<Rightarrow> js" where
  "with_default v d = (case v of None \<Rightarrow> Some d | Some x \<Rightarrow> Some x)"

definition forecast_payload :: "int \<Rightarrow> int \<Rightarrow> js \<Rightarrow> js \<Rightarrow> json" where
  "forecast_payload income baseline percent starting_savings =
     obj [(''monthly_income'', num income),
          (''monthly_baseline_spend'', num baseline),
          (''untouchable_pct'', percent),
          (''starting_savings'', starting_savings),
          (''months'', Some (JNum 6))]"

text \<open>
  The handler has no \<open>try\<close>: whatever throws ends it without a response. It returns the
  reply, the budget table it leaves and what was done.
\<close>

definition budgets_untouchable ::
    "env \<Rightarrow> budget_table \<Rightarrow> (reply \<times> budget_table) \<times> event list" where
  "budgets_untouchable e budgets =
     (case get_prop (Some (req_body e)) ''percent'' of
        Inl err \<Rightarrow> ((NoReply err, budgets), [])
      | Inr percent \<Rightarrow>
     (case get_prop (Some (req_body e)) ''starting_savings'' of
        Inl err \<Rightarrow> ((NoReply err, budgets), [])
      | Inr savings \<Rightarrow>
     (case ledger e of
        Inl err \<Rightarrow> ((NoReply err, budgets), [TransactionsRead])
      | Inr txns \<Rightarrow>
          (let txArray = tx_or_fixture e txns;
               income = monthlyIncomeArray (zone e) (current_time e) txArray;
               baseline = monthlyBaselineSpendArray (zone e) (current_time e) txArray;
               payload = Json (forecast_payload income baseline percent
                                 (with_default savings (JNum 350)));
               tr = [TransactionsRead, Issued Forecast payload, Settled [Forecast]]
           in case upstream e Forecast payload of
                Inl err \<Rightarrow> ((NoReply err, budgets), tr)
              | Inr d \<Rightarrow>
                  (case budget_upsert e (user_id e) percent budgets of
                     (Some err, budgets') \<Rightarrow>
                       ((NoReply err, budgets'), tr @ [BudgetUpsert (user_id e) percent])
                   | (None, budgets') \<Rightarrow>
                       ((Sent (res_json d), budgets'),
                        tr @ [BudgetUpsert (user_id e) percent]))))))"

text \<open>
  \<open>prisma.budget.upsert\<close> on a reachable database, as the Prisma client documents it:
  the arguments are checked before the database is reached, \<open>create\<close> needs a number for
  the column \<open>untouchablePct\<close> (\<open>NOT NULL\<close>, no default), and a member given as
  \<open>undefined\<close> counts as missing. Prisma is not part of the sources; the handler takes
  the upsert as a parameter and this is the one the examples run with.
\<close>

definition prisma_budget_upsert ::
    "string \<Rightarrow> js \<Rightarrow> budget_table \<Rightarrow> error option \<times> budget_table" where
  "prisma_budget_upsert uid percent budgets =
     (case percent of
        Some (JNum p) \<Rightarrow> (None, budgets(uid \<mapsto> p))
      | None \<Rightarrow>
          (Some (JsError ''PrismaClientValidationError'' ''Argument untouchablePct is missing.''),
           budgets)
      | Some _ \<Rightarrow>
          (Some (JsError ''PrismaClientValidationError'' ''Argument untouchablePct: invalid value.''),
           budgets))"

section \<open>Credit simulation with explanation\<close>

definition simulation_failed :: response where
  "simulation_failed =
     res_status_json 500 (obj [(''error'', Some (JStr ''Credit simulation failed''))])"

definition simulate_payload :: "js \<Rightarrow> js \<Rightarrow> js \<Rightarrow> js \<Rightarrow> js \<Rightarrow> json" where
  "simulate_payload bal apr_v min_payment extra_payment credit_limit =
     obj [(''balance'', bal),
          (''apr_annual'', apr_v),
          (''min_payment'', min_payment),
          (''extra_payment'', extra_payment),
          (''credit_limit'', credit_limit)]"

text \<open>The request body of the explainer, its members read from \<open>sim.data\<close> in order.\<close>

definition explain_payload :: "js \<Rightarrow> js \<Rightarrow> json \<Rightarrow> error + json" where
  "explain_payload bal apr_v d =
     (case get_path (Some d) [''simulation'', ''min_only'', ''months''] of
        Inl err \<Rightarrow> Inl err
      | Inr min_months \<Rightarrow>
     (case get_path (Some d) [''simulation'', ''min_only'', ''total_interest''] of
        Inl err \<Rightarrow> Inl err
      | Inr min_interest \<Rightarrow>
     (case get_path (Some d) [''simulation'', ''min_plus_extra'', ''months''] of
        Inl err \<Rightarrow> Inl err
      | Inr plus_months \<Rightarrow>
     (case get_path (Some d) [''simulation'', ''min_plus_extra'', ''total_interest''] of
        Inl err \<Rightarrow> Inl err
      | Inr plus_interest \<Rightarrow>
     (case get_path (Some d) [''guardrails'', ''utilization''] of
        Inl err \<Rightarrow> Inl err
      | Inr utilization \<Rightarrow>
          Inr (obj [(''balance'', bal),
                    (''apr_annual'', apr_v),
                    (''min_months'', min_months),
                    (''min_interest'', min_interest),
                    (''plus_months'', plus_months),
                    (''plus_interest'', plus_interest),
                    (''utilization'', utilization)]))))))"

text \<open>The inner \<open>try\<close>: the value of \<open>explanation\<close> after it, and what was done.\<close>

definition explain :: "env \<Rightarrow> js \<Rightarrow> js \<Rightarrow> json \<Rightarrow> js \<times> event list" where
  "explain e bal apr_v d =
     (case explain_payload bal apr_v d of
        Inl _ \<Rightarrow> (Some JNull, [])
      | Inr p \<Rightarrow>
          (let tr = [Issued ExplainCredit (Json p), Settled [ExplainCredit]]
           in case upstream e ExplainCredit (Json p) of
                Inl _ \<Rightarrow> (Some JNull, tr)
              | Inr ex \<Rightarrow>
                  (case get_prop (Some ex) ''explanation'' of
                     Inl _ \<Rightarrow> (Some JNull, tr)
                   | Inr x \<Rightarrow> (x, tr))))"

text \<open>\<open>{ ...sim.data, explanation }\<close>.\<close>

definition with_explanation :: "json \<Rightarrow> js \<Rightarrow> json" where
  "with_explanation d explanation =
     obj (AList.update ''explanation'' explanation (map (\<lambda>(k, v). (k, Some v)) (spread d)))"

definition credit_simulate :: "env \<Rightarrow> response \<times> event list" where
  "credit_simulate e =
     (case get_prop (Some (req_body e)) ''balance'' of
        Inl _ \<Rightarrow> (simulation_failed, [])
      | Inr bal \<Rightarrow>
     (case get_prop (Some (req_body e)) ''apr'' of
        Inl _ \<Rightarrow> (simulation_failed, [])
      | Inr apr_v \<Rightarrow>
     (case get_prop (Some (req_body e)) ''min_payment'' of
        Inl _ \<Rightarrow> (simulation_failed, [])
      | Inr min_payment \<Rightarrow>
     (case get_prop (Some (req_body e)) ''extra_payment'' of
        Inl _ \<Rightarrow> (simulation_failed, [])
      | Inr extra_payment \<Rightarrow>
     (case get_prop (Some (req_body e)) ''credit_limit'' of
        Inl _ \<Rightarrow> (simulation_failed, [])
      | Inr credit_limit \<Rightarrow>
          (let payload = Json (simulate_payload bal apr_v min_payment extra_payment credit_limit);
               tr = [Issued CreditRepayment payload, Settled [CreditRepayment]]
           in case upstream e CreditRepayment payload of
                Inl _ \<Rightarrow> (simulation_failed, tr)
              | Inr d \<Rightarrow>
                  (let (explanation, tr2) = explain e bal apr_v d
                   in (res_json (with_explanation d explanation), tr @ tr2))))))))"

section \<open>Insurance assessment\<close>

text \<open>The handler registered first for \<open>POST /insurance/assess\<close>.\<close>

definition insurance_assess :: "env \<Rightarrow> reply \<times> event list" where
  "insurance_assess e =
     (let payload = Json (req_body e);
          tr = [Issued InsuranceNudge payload, Settled [InsuranceNudge]]
      in case upstream e InsuranceNudge payload of
           Inl _ \<Rightarrow> (Sent (res_status_json 200 (obj [(''suggestions'', Some (JArr []))])), tr)
         | Inr d \<Rightarrow>
             (let s = opt_prop (Some d) ''suggestions'';
                  suggestions = (if isArray s then s else Some (JArr []))
              in (Sent (res_json (obj [(''suggestions'', suggestions)])), tr)))"

text \<open>The handler registered second for the same route, a pass-through without \<open>try\<close>.\<close>

definition insurance_assess_passthrough :: "env \<Rightarrow> reply \<times> event list" where
  "insurance_assess_passthrough e =
     (let payload = Json (req_body e);
          tr = [Issued InsuranceNudge payload, Settled [InsuranceNudge]]
      in case upstream e InsuranceNudge payload of
           Inl err \<Rightarrow> (NoReply err, tr)
         | Inr d \<Rightarrow> (Sent (res_json d), tr))"

text \<open>
  Express runs the handlers of a route in the order they were registered, and goes on
  to the next one only when a handler calls \<open>next\<close>. Neither handler above does, so
  each one ends the dispatch; with no handler left the request is not answered here.
\<close>

fun dispatch :: "(env \<Rightarrow> reply \<times> event list) list \<Rightarrow> env \<Rightarrow> reply option \<times> event list" where
  "dispatch [] e = (None, [])"
| "dispatch (h # hs) e = (case h e of (r, tr) \<Rightarrow> (Some r, tr))"

definition post_insurance_assess :: "env \<Rightarrow> reply option \<times> event list" where
  "post_insurance_assess = dispatch [insurance_assess, insurance_assess_passthrough]"

section \<open>Reading a trace\<close>

text \<open>The calls still in flight after a prefix of a trace.\<close>

fun flight_step :: "endpoint list \<Rightarrow> event \<Rightarrow> endpoint list" where
  "flight_step fl (Issued ep p) = fl @ [ep]"
| "flight_step fl (Settled eps) = filter (\<lambda>x. x \<notin> set eps) fl"
| "flight_step fl ev = fl"

definition in_flight :: "event list \<Rightarrow> endpoint list" where
  "in_flight tr = foldl flight_step [] tr"

fun is_issue :: "endpoint \<Rightarrow> event \<Rightarrow> bool" where
  "is_issue ep (Issued ep' p) = (ep = ep')"
| "is_issue ep ev = False"

fun is_settle :: "event \<Rightarrow> bool" where
  "is_settle (Settled eps) = True"
| "is_settle ev = False"

definition issued :: "endpoint \<Rightarrow> event list \<Rightarrow> bool" where
  "issued ep tr \<longleftrightarrow> list_ex (is_issue ep) tr"

text \<open>What happened before the first call of an endpoint, and from it on.\<close>

definition before_issue :: "endpoint \<Rightarrow> event list \<Rightarrow> event list" where
  "before_issue ep tr = takeWhile (\<lambda>ev. \<not> is_issue ep ev) tr"

definition from_issue :: "endpoint \<Rightarrow> event list \<Rightarrow> event list" where
  "from_issue ep tr = dropWhile (\<lambda>ev. \<not> is_issue ep ev) tr"

text \<open>What happened before the handler first resumed from an \<open>await\<close> on provider calls.\<close>

definition before_first_settle :: "event list \<Rightarrow> event list" where
  "before_first_settle tr = takeWhile (\<lambda>ev. \<not> is_settle ev) tr"

definition first_settle :: "event list \<Rightarrow> event option" where
  "first_settle tr = (case dropWhile (\<lambda>ev. \<not> is_settle ev) tr of [] \<Rightarrow> None | ev # _ \<Rightarrow> Some ev)"

text \<open>All of the endpoints are called before the handler waits for any of them.\<close>

definition issued_without_waiting :: "endpoint list \<Rightarrow> event list \<Rightarrow> bool" where
  "issued_without_waiting eps tr \<longleftrightarrow> list_all (\<lambda>ep. issued ep (before_first_settle tr)) eps"


text \<open>A member of a JSON object, \<open>undefined\<close> when there is none.\<close>

definition member_of :: "json \<Rightarrow> string \<Rightarrow> js" where
  "member_of j k = (case j of JObj fs \<Rightarrow> map_of fs k | _ \<Rightarrow> None)"

text \<open>
  The \<open>metrics\<close> object in the body of the narrative call of a trace, and a member of
  it.
\<close>

definition sent_metrics :: "event list \<Rightarrow> js" where
  "sent_metrics tr =
     (case from_issue Narrative tr of
        Issued ep (Json b) # rest \<Rightarrow> member_of b ''metrics''
      | _ \<Rightarrow> None)"

definition metric :: "event list \<Rightarrow> string \<Rightarrow> js" where
  "metric tr k = (case sent_metrics tr of Some m \<Rightarrow> member_of m k | None \<Rightarrow> None)"

section \<open>Auxiliary notions for the statements\<close>

text \<open>
  A settled call of the group that the reduction can read: a rejected one, or a
  fulfilled one whose body is not \<open>null\<close>.
\<close>

definition readable :: "error + json \<Rightarrow> bool" where
  "readable r = (case r of Inl _ \<Rightarrow> True | Inr d \<Rightarrow> d \<noteq> JNull)"

text \<open>The request body of the three calls of the group, for the rows read.\<close>

definition summary_payload :: "env \<Rightarrow> raw_tx list \<Rightarrow> payload" where
  "summary_payload e txns = Transactions (map normalize (tx_or_fixture e txns))"

text \<open>The request body of the forecast call, for the rows read.\<close>

definition forecast_call :: "env \<Rightarrow> raw_tx list \<Rightarrow> payload" where
  "forecast_call e txns =
     Json (forecast_payload
            (monthlyIncomeArray (zone e) (current_time e) (tx_or_fixture e txns))
            (monthlyBaselineSpendArray (zone e) (current_time e) (tx_or_fixture e txns))
            (opt_prop (Some (req_body e)) ''percent'')
            (with_default (opt_prop (Some (req_body e)) ''starting_savings'') (JNum 350)))"

text \<open>The answer of the insurance handler when it has no suggestion to pass on.\<close>

definition no_suggestions :: response where
  "no_suggestions = \<lparr>status = 200, body = JObj [(''suggestions'', JArr [])]\<rparr>"

section \<open>Example environments\<close>

definition healthy_simulation :: json where
  "healthy_simulation =
     JObj [(''simulation'',
            JObj [(''min_only'', JObj [(''months'', JNum 30), (''total_interest'', JNum 260)]),
                  (''min_plus_extra'',
                   JObj [(''months'', JNum 20), (''total_interest'', JNum 170)])]),
           (''guardrails'', JObj [(''utilization'', JNum 25), (''alerts'', JArr [])])]"

text \<open>An upstream service whose every endpoint answers with a well-formed body.\<close>

definition healthy_upstream :: "endpoint \<Rightarrow> payload \<Rightarrow> error + json" where
  "healthy_upstream ep p =
     (case ep of
        Subscriptions \<Rightarrow>
          Inr (JObj [(''subscriptions'', JArr [JObj [(''merchant'', JStr ''Gym'')]])])
      | Spikes \<Rightarrow> Inr (JObj [(''spikes'', JArr [JObj [(''category'', JStr ''dining'')]])])
      | Movers \<Rightarrow> Inr (JObj [(''movers'', JArr [])])
      | CreditRepayment \<Rightarrow> Inr healthy_simulation
      | Narrative \<Rightarrow> Inr (JObj [(''narrative'', JStr ''A calm week.'')])
      | ExplainCredit \<Rightarrow> Inr (JObj [(''explanation'', JStr ''Pay more, owe less.'')])
      | Forecast \<Rightarrow> Inr (JObj [(''series'', JArr []), (''suggested_pct'', JNum (1 / 5))])
      | InsuranceNudge \<Rightarrow>
          Inr (JObj [(''suggestions'', JArr [JObj [(''type'', JStr ''renters'')]])]))"

definition timeout_error :: error where
  "timeout_error = JsError ''AxiosError'' ''timeout of 8000ms exceeded''"

text \<open>A service none of whose endpoints answers.\<close>

definition dead_upstream :: "endpoint \<Rightarrow> payload \<Rightarrow> error + json" where
  "dead_upstream ep p = Inl timeout_error"

text \<open>A server running in UTC.\<close>

definition utc_zone :: zone where
  "utc_zone = \<lparr>local_time = (\<lambda>t. t), utc = (\<lambda>t. t)\<rparr>"


text \<open>Day 100 after the epoch.\<close>

definition demo_now :: time where
  "demo_now = 8640000000"

text \<open>
  A user without transactions and without a credit account, no fixtures, an empty
  request body.
\<close>

definition demo_env :: env where
  "demo_env =
     \<lparr>zone = utc_zone, current_time = demo_now, user_id = ''u1'', req_body = JObj [],
      ledger = Inr [], fixture_tx = [], credit_account = Inr None,
      upstream = healthy_upstream,
      budget_upsert = prisma_budget_upsert\<rparr>"


text \<open>The subscription detector answers 200 with an empty object.\<close>

definition subs_field_missing_env :: env where
  "subs_field_missing_env =
     demo_env\<lparr>upstream := healthy_upstream(Subscriptions := \<lambda>p. Inr (JObj []))\<rparr>"

text \<open>The subscription detector answers 200 with the body \<open>null\<close>.\<close>

definition subs_null_body_env :: env where
  "subs_null_body_env =
     demo_env\<lparr>upstream := healthy_upstream(Subscriptions := \<lambda>p. Inr JNull)\<rparr>"

definition dead_env :: env where
  "dead_env = demo_env\<lparr>upstream := dead_upstream\<rparr>"

definition credit_request :: json where
  "credit_request =
     JObj [(''balance'', JNum 780), (''apr'', JNum (2399 / 100)), (''min_payment'', JNum 35),
           (''extra_payment'', JNum 50), (''credit_limit'', JNum 2000)]"

text \<open>A credit simulation request meeting a dead simulator.\<close>

definition simulator_down_env :: env where
  "simulator_down_env =
     demo_env\<lparr>req_body := credit_request,
              upstream := healthy_upstream(CreditRepayment := \<lambda>p. Inl timeout_error)\<rparr>"

text \<open>A credit simulation request meeting a dead explainer.\<close>

definition explainer_down_env :: env where
  "explainer_down_env =
     demo_env\<lparr>req_body := credit_request,
              upstream := healthy_upstream(ExplainCredit := \<lambda>p. Inl timeout_error)\<rparr>"

text \<open>The subscription detector times out, the other providers answer.\<close>

definition subs_down_env :: env where
  "subs_down_env =
     demo_env\<lparr>upstream := healthy_upstream(Subscriptions := \<lambda>p. Inl timeout_error)\<rparr>"

text \<open>The insurance provider times out.\<close>

definition insurance_down_env :: env where
  "insurance_down_env =
     demo_env\<lparr>upstream := healthy_upstream(InsuranceNudge := \<lambda>p. Inl timeout_error)\<rparr>"

text \<open>
  The budget table after the seed script: the user has a row with 20 percent. A
  forecast request for 30 percent, and a forecast provider that times out.
\<close>

definition seeded_budgets :: budget_table where
  "seeded_budgets = Map.empty(''u1'' \<mapsto> 1 / 5)"

definition forecast_request :: json where
  "forecast_request = JObj [(''percent'', JNum (3 / 10))]"

definition forecast_down_env :: env where
  "forecast_down_env =
     demo_env\<lparr>req_body := forecast_request,
              upstream := healthy_upstream(Forecast := \<lambda>p. Inl timeout_error)\<rparr>"

text \<open>
  The subscription detector times out and the spike detector answers 200 with the body
  \<open>null\<close>.
\<close>

definition spikes_null_env :: env where
  "spikes_null_env =
     demo_env\<lparr>upstream := healthy_upstream(Subscriptions := \<lambda>p. Inl timeout_error,
                                            Spikes := \<lambda>p. Inr JNull)\<rparr>"

text \<open>The repayment simulator answers 200 with an empty object.\<close>

definition credit_field_missing_env :: env where
  "credit_field_missing_env =
     demo_env\<lparr>upstream := healthy_upstream(CreditRepayment := \<lambda>p. Inr (JObj []))\<rparr>"

text \<open>A credit simulation request meeting a simulator that answers 200 with \<open>null\<close>.\<close>

definition simulator_null_env :: env where
  "simulator_null_env =
     demo_env\<lparr>req_body := credit_request,
              upstream := healthy_upstream(CreditRepayment := \<lambda>p. Inr JNull)\<rparr>"

text \<open>A credit simulation request meeting an explainer that answers 200 with \<open>{}\<close>.\<close>

definition explainer_empty_env :: env where
  "explainer_empty_env =
     demo_env\<lparr>req_body := credit_request,
              upstream := healthy_upstream(ExplainCredit := \<lambda>p. Inr (JObj []))\<rparr>"

section \<open>Properties of double arithmetic\<close>




lemma pow2_nat: "pow2 (int n) = 2 ^ n"
  by (simp add: pow2_def)
















section \<open>Properties of the metrics\<close>

























section \<open>Properties of the dashboard summary\<close>

lemma map_of_fields_absent:
  "k \<notin> fst ` set fs \<Longrightarrow> map_of (List.map_filter (\<lambda>(k, v). map_option (Pair k) v) fs) k = None"
  by (induction fs) (auto simp: List.map_filter_simps split: option.splits)

lemma map_of_fields:
  "distinct (map fst fs) \<Longrightarrow>
   map_of (List.map_filter (\<lambda>(k, v). map_option (Pair k) v) fs) k =
     (case map_of fs k of None \<Rightarrow> None | Some v \<Rightarrow> v)"
proof (induction fs)
  case Nil
  then show ?case by (simp add: List.map_filter_simps)
next
  case (Cons a fs)
  obtain k' v' where a: "a = (k', v')" by (cases a)
  show ?case
  proof (cases "k = k'")
    case True
    with Cons.prems a have "k \<notin> fst ` set fs" by auto
    then show ?thesis
      using True a by (cases v') (simp_all add: List.map_filter_simps map_of_fields_absent)
  next
    case False
    then show ?thesis
      using Cons a by (cases v') (simp_all add: List.map_filter_simps)
  qed
qed

lemma body_field_obj:
  "distinct (map fst fs) \<Longrightarrow>
   body_field \<lparr>status = c, body = obj fs\<rparr> k = (case map_of fs k of None \<Rightarrow> None | Some v \<Rightarrow> v)"
  by (simp add: body_field_def obj_def map_of_fields)

lemma reduce_settled_rejected: "isl r \<Longrightarrow> reduce_settled f r = Inr (Some (JArr []))"
  by (cases r) (simp_all add: reduce_settled_def)

lemma reduce_settled_readable: "readable r \<Longrightarrow> \<exists>v. reduce_settled f r = Inr v"
  by (cases r; cases "projr r") (auto simp: reduce_settled_def readable_def)

lemma reduce_settled_throws: "reduce_settled f r = Inl err \<longleftrightarrow> r = Inr JNull \<and> err = type_error ''null''"
  by (cases r; cases "projr r") (auto simp: reduce_settled_def)

lemma dashboard_summary_ledger_failure:
  "ledger e = Inl err \<Longrightarrow> dashboard_summary e = (summary_failed err, [TransactionsRead])"
  by (simp add: dashboard_summary_def)

lemma dashboard_summary_reduced:
  assumes "ledger e = Inr txns"
    and "reduce_settled ''subscriptions'' (upstream e Subscriptions (summary_payload e txns)) = Inr subs"
    and "reduce_settled ''spikes'' (upstream e Spikes (summary_payload e txns)) = Inr spikes"
    and "reduce_settled ''movers'' (upstream e Movers (summary_payload e txns)) = Inr movers"
  shows "dashboard_summary e =
    (let norm = map normalize (tx_or_fixture e txns);
         income = monthlyIncomeArray (zone e) (current_time e) norm;
         baseline = monthlyBaselineSpendArray (zone e) (current_time e) norm;
         credit = credit_guardrails e;
         narrative = weekly_narrative e income baseline (fst credit) subs spikes
     in (res_json
           (obj [(''income'', num income),
                 (''baseline'', num baseline),
                 (''credit'', fst credit),
                 (''subscriptions'', subs),
                 (''spikes'', spikes),
                 (''movers'', movers),
                 (''weekly_narrative'', fst narrative)]),
         (TransactionsRead # group_events (summary_payload e txns)) @ snd credit @ snd narrative))"
  using assms by (simp add: dashboard_summary_def summary_payload_def Let_def split: prod.splits)

lemma dashboard_body_field:
  assumes "ledger e = Inr txns"
    and "reduce_settled ''subscriptions'' (upstream e Subscriptions (summary_payload e txns)) = Inr subs"
    and "reduce_settled ''spikes'' (upstream e Spikes (summary_payload e txns)) = Inr spikes"
    and "reduce_settled ''movers'' (upstream e Movers (summary_payload e txns)) = Inr movers"
  shows "body_field (fst (dashboard_summary e)) k =
      (case map_of
         [(''income'', num (monthlyIncomeArray (zone e) (current_time e) (map normalize (tx_or_fixture e txns)))),
          (''baseline'',
           num (monthlyBaselineSpendArray (zone e) (current_time e) (map normalize (tx_or_fixture e txns)))),
          (''credit'', fst (credit_guardrails e)),
          (''subscriptions'', subs),
          (''spikes'', spikes),
          (''movers'', movers),
          (''weekly_narrative'', fst (weekly_narrative e
              (monthlyIncomeArray (zone e) (current_time e) (map normalize (tx_or_fixture e txns)))
              (monthlyBaselineSpendArray (zone e) (current_time e) (map normalize (tx_or_fixture e txns)))
              (fst (credit_guardrails e)) subs spikes))] k
       of None \<Rightarrow> None | Some v \<Rightarrow> v)"
  unfolding dashboard_summary_reduced [OF assms] Let_def fst_conv res_json_def
  by (rule body_field_obj) simp

lemma rejected_not_fulfilled: "\<forall>q. isl (f q) \<Longrightarrow> f q = Inr d \<Longrightarrow> False"
  by (metis sum.disc(2))

lemma truthy_defined: "truthy v \<Longrightarrow> \<exists>y. v = Some y"
  by (cases v) auto

lemma credit_guardrails_trace:
  "snd (credit_guardrails e) = [AccountRead] \<and> isl (credit_account e)
   \<or> (\<exists>q. snd (credit_guardrails e) = [AccountRead, Issued CreditRepayment q, Settled [CreditRepayment]])"
  by (auto simp: credit_guardrails_def Let_def split: sum.splits)

lemma credit_guardrails_fallback:
  "isl (credit_account e) \<or> (\<forall>q. isl (upstream e CreditRepayment q)) \<Longrightarrow>
   fst (credit_guardrails e) = Some credit_fallback"
  by (auto simp: credit_guardrails_def Let_def split: sum.splits dest: rejected_not_fulfilled)

lemma weekly_narrative_trace:
  "snd (weekly_narrative e i b c s sp) =
     (case narrative_metrics i b c s sp of
        Inl _ \<Rightarrow> []
      | Inr m \<Rightarrow> [Issued Narrative (Json (obj [(''metrics'', Some m)])), Settled [Narrative]])"
  by (auto simp: weekly_narrative_def Let_def split: sum.splits)

lemma weekly_narrative_fallback:
  "\<forall>q. isl (upstream e Narrative q) \<Longrightarrow> fst (weekly_narrative e i b c s sp) = stable_week"
  by (auto simp: weekly_narrative_def Let_def split: sum.splits dest: rejected_not_fulfilled)

lemma weekly_narrative_defined: "fst (weekly_narrative e i b c s sp) \<noteq> None"
  by (auto simp: weekly_narrative_def Let_def js_or_def stable_week_def split: sum.splits
      dest: truthy_defined)

text \<open>The status of the answer, for every environment.\<close>

lemma readable_iff: "readable r \<longleftrightarrow> r \<noteq> Inr JNull"
  by (cases r) (auto simp: readable_def)

lemma reduce_settled_unreadable: "\<not> readable r \<Longrightarrow> reduce_settled f r = Inl (type_error ''null'')"
  by (simp add: readable_iff reduce_settled_def)

lemma dashboard_summary_throws:
  assumes "ledger e = Inr txns"
    and "reduce_settled ''subscriptions'' (upstream e Subscriptions (summary_payload e txns)) = Inl err
       \<or> reduce_settled ''spikes'' (upstream e Spikes (summary_payload e txns)) = Inl err
       \<or> reduce_settled ''movers'' (upstream e Movers (summary_payload e txns)) = Inl err"
  shows "status (fst (dashboard_summary e)) = 500"
proof -
  have s: "\<And>x. status (summary_failed x) = 500"
    by (simp add: summary_failed_def res_status_json_def)
  show ?thesis
  proof (cases "reduce_settled ''subscriptions'' (upstream e Subscriptions (summary_payload e txns))")
    case (Inl a)
    with assms(1) show ?thesis
      by (simp add: dashboard_summary_def summary_payload_def Let_def s)
  next
    case subs: (Inr a)
    show ?thesis
    proof (cases "reduce_settled ''spikes'' (upstream e Spikes (summary_payload e txns))")
      case (Inl b)
      with assms(1) subs show ?thesis
        by (simp add: dashboard_summary_def summary_payload_def Let_def s)
    next
      case spikes: (Inr b)
      with assms(2) subs obtain c where
        "reduce_settled ''movers'' (upstream e Movers (summary_payload e txns)) = Inl c"
        by auto
      with assms(1) subs spikes show ?thesis
        by (simp add: dashboard_summary_def summary_payload_def Let_def s)
    qed
  qed
qed

lemma dashboard_summary_status:
  "status (fst (dashboard_summary e)) =
     (if isl (ledger e) then 500
      else if readable (upstream e Subscriptions (summary_payload e (projr (ledger e))))
            \<and> readable (upstream e Spikes (summary_payload e (projr (ledger e))))
            \<and> readable (upstream e Movers (summary_payload e (projr (ledger e))))
           then 200 else 500)"
proof (cases "ledger e")
  case (Inl err)
  then show ?thesis
    by (simp add: dashboard_summary_ledger_failure summary_failed_def res_status_json_def)
next
  case (Inr txns)
  let ?p = "summary_payload e txns"
  show ?thesis
  proof (cases "readable (upstream e Subscriptions ?p) \<and> readable (upstream e Spikes ?p)
      \<and> readable (upstream e Movers ?p)")
    case True
    obtain subs where subs:
      "reduce_settled ''subscriptions'' (upstream e Subscriptions ?p) = Inr subs"
      using reduce_settled_readable True by blast
    obtain spikes where spikes:
      "reduce_settled ''spikes'' (upstream e Spikes ?p) = Inr spikes"
      using reduce_settled_readable True by blast
    obtain movers where movers:
      "reduce_settled ''movers'' (upstream e Movers ?p) = Inr movers"
      using reduce_settled_readable True by blast
    have "status (fst (dashboard_summary e)) = 200"
      by (simp add: dashboard_summary_reduced [OF Inr subs spikes movers] Let_def res_json_def)
    with True Inr show ?thesis
      by simp
  next
    case False
    then have "reduce_settled ''subscriptions'' (upstream e Subscriptions ?p) = Inl (type_error ''null'')
       \<or> reduce_settled ''spikes'' (upstream e Spikes ?p) = Inl (type_error ''null'')
       \<or> reduce_settled ''movers'' (upstream e Movers ?p) = Inl (type_error ''null'')"
      using reduce_settled_unreadable [of "upstream e Subscriptions ?p" "''subscriptions''"]
        reduce_settled_unreadable [of "upstream e Spikes ?p" "''spikes''"]
        reduce_settled_unreadable [of "upstream e Movers ?p" "''movers''"]
      by blast
    then have "status (fst (dashboard_summary e)) = 500"
      by (rule dashboard_summary_throws [OF Inr])
    with False Inr show ?thesis
      by simp
  qed
qed

lemma issued_iff: "issued ep tr \<longleftrightarrow> (\<exists>p. Issued ep p \<in> set tr)"
proof -
  have "\<And>ev. is_issue ep ev \<longleftrightarrow> (\<exists>p. ev = Issued ep p)"
    by (case_tac ev) auto
  then show ?thesis
    by (auto simp: issued_def list_ex_iff)
qed

text \<open>
  C1. With the subscription detector answering 200 with the body \<open>{}\<close>, the ledger
  read succeeding and every other provider answering well, the handler answers 200
  with a body that has no member \<open>subscriptions\<close>: the value read from the body is
  \<open>undefined\<close> and \<open>res.json\<close> leaves the member out. The claim asks for all seven
  keys.
\<close>

theorem dashboard_missing_key:
  "ledger subs_field_missing_env = Inr []
   \<and> status (fst (dashboard_summary subs_field_missing_env)) = 200
   \<and> \<not> has_key (fst (dashboard_summary subs_field_missing_env)) ''subscriptions''
   \<and> \<not> list_all (has_key (fst (dashboard_summary subs_field_missing_env))) summary_keys"
  by code_simp

text \<open>
  C5. With the subscription detector answering 200 with the body \<open>null\<close> and the
  ledger read succeeding, reading \<open>data.subscriptions\<close> throws outside the inner
  \<open>try\<close> blocks and the handler answers 500 \<open>summary_failed\<close>. The claim allows this
  answer for a failed ledger read only.
\<close>

theorem dashboard_null_body_500:
  "ledger subs_null_body_env = Inr []
   \<and> upstream subs_null_body_env Subscriptions (Transactions []) = Inr JNull
   \<and> status (fst (dashboard_summary subs_null_body_env)) = 500
   \<and> body_field (fst (dashboard_summary subs_null_body_env)) ''error''
       = Some (JStr ''summary_failed'')
   \<and> \<not> has_key (fst (dashboard_summary subs_null_body_env)) ''income''"
  by code_simp

text \<open>
  What holds of the fallbacks. When the ledger read succeeds and each call of the group
  is either rejected or answers with a body other than \<open>null\<close>, the handler answers
  200, and every branch whose provider call was rejected holds its fallback.
\<close>

lemma dashboard_fallbacks:
  assumes "ledger e = Inr txns"
    and "readable (upstream e Subscriptions (summary_payload e txns))"
    and "readable (upstream e Spikes (summary_payload e txns))"
    and "readable (upstream e Movers (summary_payload e txns))"
  shows "status (fst (dashboard_summary e)) = 200
    \<and> (isl (upstream e Subscriptions (summary_payload e txns)) \<longrightarrow>
         body_field (fst (dashboard_summary e)) ''subscriptions'' = Some (JArr []))
    \<and> (isl (upstream e Spikes (summary_payload e txns)) \<longrightarrow>
         body_field (fst (dashboard_summary e)) ''spikes'' = Some (JArr []))
    \<and> (isl (upstream e Movers (summary_payload e txns)) \<longrightarrow>
         body_field (fst (dashboard_summary e)) ''movers'' = Some (JArr []))
    \<and> (isl (credit_account e) \<or> (\<forall>q. isl (upstream e CreditRepayment q)) \<longrightarrow>
         body_field (fst (dashboard_summary e)) ''credit'' = Some credit_fallback)
    \<and> ((\<forall>q. isl (upstream e Narrative q)) \<longrightarrow>
         body_field (fst (dashboard_summary e)) ''weekly_narrative'' = stable_week)"
proof -
  obtain subs where subs:
    "reduce_settled ''subscriptions'' (upstream e Subscriptions (summary_payload e txns)) = Inr subs"
    using reduce_settled_readable [OF assms(2)] by blast
  obtain spikes where spikes:
    "reduce_settled ''spikes'' (upstream e Spikes (summary_payload e txns)) = Inr spikes"
    using reduce_settled_readable [OF assms(3)] by blast
  obtain movers where movers:
    "reduce_settled ''movers'' (upstream e Movers (summary_payload e txns)) = Inr movers"
    using reduce_settled_readable [OF assms(4)] by blast
  note shape = dashboard_summary_reduced [OF assms(1) subs spikes movers]
  have st: "status (fst (dashboard_summary e)) = 200"
    by (simp add: shape Let_def res_json_def)
  note f = dashboard_body_field [OF assms(1) subs spikes movers]
  have a: "isl (upstream e Subscriptions (summary_payload e txns)) \<longrightarrow>
         body_field (fst (dashboard_summary e)) ''subscriptions'' = Some (JArr [])"
    using subs reduce_settled_rejected [of "upstream e Subscriptions (summary_payload e txns)" "''subscriptions''"]
    by (auto simp: f)
  have b: "isl (upstream e Spikes (summary_payload e txns)) \<longrightarrow>
         body_field (fst (dashboard_summary e)) ''spikes'' = Some (JArr [])"
    using spikes reduce_settled_rejected [of "upstream e Spikes (summary_payload e txns)" "''spikes''"]
    by (auto simp: f)
  have c: "isl (upstream e Movers (summary_payload e txns)) \<longrightarrow>
         body_field (fst (dashboard_summary e)) ''movers'' = Some (JArr [])"
    using movers reduce_settled_rejected [of "upstream e Movers (summary_payload e txns)" "''movers''"]
    by (auto simp: f)
  have d: "isl (credit_account e) \<or> (\<forall>q. isl (upstream e CreditRepayment q)) \<longrightarrow>
         body_field (fst (dashboard_summary e)) ''credit'' = Some credit_fallback"
    by (auto simp: f credit_guardrails_fallback)
  have n: "(\<forall>q. isl (upstream e Narrative q)) \<longrightarrow>
         body_field (fst (dashboard_summary e)) ''weekly_narrative'' = stable_week"
    by (simp add: f weekly_narrative_fallback)
  from st a b c d n show ?thesis by blast
qed

text \<open>
  C2. The claim fails on a provider that fails by answering 2xx with a body that is
  not the expected one. With the subscription detector timing out and the spike
  detector answering 200 with the body \<open>null\<close>, the ledger read succeeding, the
  handler answers 500 instead of 200 with both lists empty. With the repayment
  simulator answering 200 with \<open>{}\<close>, the response has no member \<open>credit\<close> instead of
  the fixed fallback object.
\<close>

theorem dashboard_fallback_missed:
  "ledger spikes_null_env = Inr []
   \<and> isl (upstream spikes_null_env Subscriptions (Transactions []))
   \<and> upstream spikes_null_env Spikes (Transactions []) = Inr JNull
   \<and> status (fst (dashboard_summary spikes_null_env)) = 500
   \<and> \<not> has_key (fst (dashboard_summary spikes_null_env)) ''subscriptions''
   \<and> ledger credit_field_missing_env = Inr []
   \<and> upstream credit_field_missing_env CreditRepayment (Json (credit_payload None))
       = Inr (JObj [])
   \<and> status (fst (dashboard_summary credit_field_missing_env)) = 200
   \<and> \<not> has_key (fst (dashboard_summary credit_field_missing_env)) ''credit''
   \<and> body_field (fst (dashboard_summary credit_field_missing_env)) ''credit''
       \<noteq> Some credit_fallback"
  by code_simp

section \<open>Order of the provider calls\<close>

lemma group_events_facts:
  "before_first_settle (TransactionsRead # group_events p @ rest) =
     [TransactionsRead, Issued Subscriptions p, Issued Spikes p, Issued Movers p]"
  "first_settle (TransactionsRead # group_events p @ rest) = Some (Settled [Subscriptions, Spikes, Movers])"
  by (simp_all add: before_first_settle_def first_settle_def group_events_def)

lemma dashboard_trace_cases:
  assumes "ledger e = Inr txns"
  shows "\<exists>rest. snd (dashboard_summary e) = TransactionsRead # group_events (summary_payload e txns) @ rest"
  using assms
  by (auto simp: dashboard_summary_def summary_payload_def Let_def split: sum.splits prod.splits)

lemma narrative_metrics_no_spikes:
  "narrative_metrics i b c s (Some (JArr [])) = Inr m \<Longrightarrow>
   get_prop (Some m) ''top_spike_category'' = Inr (Some JNull)"
  by (auto simp: narrative_metrics_def obj_def List.map_filter_simps opt_prop_def nullish_def
      js_or_def num_def split: sum.splits option.splits)

lemma reduce_settled_fulfilled: "reduce_settled f (Inr d) = get_prop (Some d) f"
  by (simp add: reduce_settled_def)

lemma member_of_obj:
  "distinct (map fst fs) \<Longrightarrow>
   member_of (obj fs) k = (case map_of fs k of None \<Rightarrow> None | Some v \<Rightarrow> v)"
  by (simp add: member_of_def obj_def map_of_fields)

lemma narrative_metrics_members:
  assumes "narrative_metrics i b c s sp = Inr m"
  shows "member_of m ''income'' = num i"
    and "member_of m ''baseline'' = num b"
    and "Inr (member_of m ''credit_utilization'') = get_prop c ''utilization''"
    and "Inr (member_of m ''subscriptions_count'') = get_prop s ''length''"
    and "\<exists>s0. get_index0 sp = Inr s0
           \<and> member_of m ''top_spike_category'' = js_or (opt_prop s0 ''category'') (Some JNull)"
    and "member_of m ''untouchable_pct'' = Some (JNum (1 / 5))"
proof -
  from assms obtain u n s0 where
    u: "get_prop c ''utilization'' = Inr u" and n: "get_prop s ''length'' = Inr n"
    and s0: "get_index0 sp = Inr s0"
    and m: "m = obj [(''income'', num i), (''baseline'', num b), (''credit_utilization'', u),
                     (''subscriptions_count'', n),
                     (''top_spike_category'', js_or (opt_prop s0 ''category'') (Some JNull)),
                     (''untouchable_pct'', Some (JNum (1 / 5)))]"
    by (auto simp: narrative_metrics_def split: sum.splits)
  have d: "\<And>k. member_of m k =
      (case map_of [(''income'', num i), (''baseline'', num b), (''credit_utilization'', u),
                     (''subscriptions_count'', n),
                     (''top_spike_category'', js_or (opt_prop s0 ''category'') (Some JNull)),
                     (''untouchable_pct'', Some (JNum (1 / 5)))] k
       of None \<Rightarrow> None | Some v \<Rightarrow> v)"
    unfolding m by (rule member_of_obj) simp
  show "member_of m ''income'' = num i" by (simp add: d)
  show "member_of m ''baseline'' = num b" by (simp add: d)
  show "Inr (member_of m ''credit_utilization'') = get_prop c ''utilization''" by (simp add: d u)
  show "Inr (member_of m ''subscriptions_count'') = get_prop s ''length''" by (simp add: d n)
  show "\<exists>s0. get_index0 sp = Inr s0
           \<and> member_of m ''top_spike_category'' = js_or (opt_prop s0 ''category'') (Some JNull)"
    using s0 by (simp add: d)
  show "member_of m ''untouchable_pct'' = Some (JNum (1 / 5))" by (simp add: d)
qed

lemma metric_of_trace:
  "from_issue Narrative tr = Issued Narrative (Json (obj [(''metrics'', Some m)])) # rest \<Longrightarrow>
   metric tr k = member_of m k"
  by (simp add: metric_def sent_metrics_def member_of_def obj_def List.map_filter_simps)

lemma credit_guardrails_value:
  assumes "Issued CreditRepayment q \<in> set (snd (credit_guardrails e))"
    and "upstream e CreditRepayment q = Inr d"
    and "get_prop (Some d) ''guardrails'' = Inr g"
  shows "fst (credit_guardrails e) = g"
  using assms by (auto simp: credit_guardrails_def Let_def split: sum.splits)

lemma credit_guardrails_unanswered:
  assumes "\<forall>q. Issued CreditRepayment q \<in> set (snd (credit_guardrails e)) \<longrightarrow>
             isl (upstream e CreditRepayment q)"
  shows "fst (credit_guardrails e) = Some credit_fallback"
  using assms by (auto simp: credit_guardrails_def Let_def split: sum.splits)

lemma narrative_issue_shape:
  assumes "issued Narrative (snd (dashboard_summary e))"
  obtains txns subs spikes movers m where
    "ledger e = Inr txns"
    "reduce_settled ''subscriptions'' (upstream e Subscriptions (summary_payload e txns)) = Inr subs"
    "reduce_settled ''spikes'' (upstream e Spikes (summary_payload e txns)) = Inr spikes"
    "reduce_settled ''movers'' (upstream e Movers (summary_payload e txns)) = Inr movers"
    "narrative_metrics
       (monthlyIncomeArray (zone e) (current_time e) (map normalize (tx_or_fixture e txns)))
       (monthlyBaselineSpendArray (zone e) (current_time e) (map normalize (tx_or_fixture e txns)))
       (fst (credit_guardrails e)) subs spikes = Inr m"
    "snd (dashboard_summary e) =
       (TransactionsRead # group_events (summary_payload e txns)) @ snd (credit_guardrails e)
         @ [Issued Narrative (Json (obj [(''metrics'', Some m)])), Settled [Narrative]]"
proof (cases "ledger e")
  case (Inl err)
  with assms show ?thesis
    by (simp add: dashboard_summary_ledger_failure issued_def)
next
  case (Inr txns)
  let ?p = "summary_payload e txns"
  let ?norm = "map normalize (tx_or_fixture e txns)"
  let ?inc = "monthlyIncomeArray (zone e) (current_time e) ?norm"
  let ?base = "monthlyBaselineSpendArray (zone e) (current_time e) ?norm"
  have no_early: "\<not> issued Narrative (TransactionsRead # group_events ?p)"
    by (simp add: issued_def group_events_def)
  from assms Inr no_early obtain subs spikes movers where
    subs: "reduce_settled ''subscriptions'' (upstream e Subscriptions ?p) = Inr subs" and
    spikes: "reduce_settled ''spikes'' (upstream e Spikes ?p) = Inr spikes" and
    movers: "reduce_settled ''movers'' (upstream e Movers ?p) = Inr movers"
    by (auto simp: dashboard_summary_def summary_payload_def Let_def split: sum.splits)
  note shape = dashboard_summary_reduced [OF Inr subs spikes movers]
  let ?credit = "fst (credit_guardrails e)"
  have tr: "snd (dashboard_summary e) =
      (TransactionsRead # group_events ?p) @ snd (credit_guardrails e)
        @ snd (weekly_narrative e ?inc ?base ?credit subs spikes)"
    by (simp add: shape Let_def)
  from assms obtain m where m: "narrative_metrics ?inc ?base ?credit subs spikes = Inr m"
    using credit_guardrails_trace [of e]
    by (cases "narrative_metrics ?inc ?base ?credit subs spikes")
       (auto simp: tr weekly_narrative_trace issued_def group_events_def)
  have "snd (weekly_narrative e ?inc ?base ?credit subs spikes) =
      [Issued Narrative (Json (obj [(''metrics'', Some m)])), Settled [Narrative]]"
    by (simp add: weekly_narrative_trace m)
  with tr have "snd (dashboard_summary e) =
       (TransactionsRead # group_events ?p) @ snd (credit_guardrails e)
         @ [Issued Narrative (Json (obj [(''metrics'', Some m)])), Settled [Narrative]]"
    by simp
  from that [OF Inr subs spikes movers m this] show ?thesis .
qed

text \<open>
  C6. Whenever the narrative call goes out, no provider call is in flight any more: the
  three calls of the group have gone out and settled, the account lookup has been done
  and the repayment call, if it was made, has settled, and none is made afterwards.
  The metrics in the body of the call are the reduced values the response carries:
  its income and baseline, the \<open>utilization\<close> of its credit object, the length of its
  subscriptions, the category of its first spike, or \<open>null\<close> when there is none, and
  \<open>0.2\<close>. They are therefore the values the earlier calls delivered: the length of
  the list the subscription detector answered, or 0 when that call was rejected; the
  category of the first spike the spike detector answered, or \<open>null\<close> when that call
  was rejected; the \<open>utilization\<close> of the guardrails the repayment call answered, or
  39 when no repayment call was answered.
\<close>

theorem narrative_after_branches:
  assumes "issued Narrative (snd (dashboard_summary e))"
  shows "in_flight (before_issue Narrative (snd (dashboard_summary e))) = []
    \<and> issued Subscriptions (before_issue Narrative (snd (dashboard_summary e)))
    \<and> issued Spikes (before_issue Narrative (snd (dashboard_summary e)))
    \<and> issued Movers (before_issue Narrative (snd (dashboard_summary e)))
    \<and> AccountRead \<in> set (before_issue Narrative (snd (dashboard_summary e)))
    \<and> \<not> issued CreditRepayment (from_issue Narrative (snd (dashboard_summary e)))
    \<and> (\<exists>inc base m.
          body_field (fst (dashboard_summary e)) ''income'' = num inc
        \<and> body_field (fst (dashboard_summary e)) ''baseline'' = num base
        \<and> narrative_metrics inc base
             (body_field (fst (dashboard_summary e)) ''credit'')
             (body_field (fst (dashboard_summary e)) ''subscriptions'')
             (body_field (fst (dashboard_summary e)) ''spikes'') = Inr m
        \<and> from_issue Narrative (snd (dashboard_summary e)) =
             [Issued Narrative (Json (obj [(''metrics'', Some m)])), Settled [Narrative]]
        \<and> (body_field (fst (dashboard_summary e)) ''spikes'' = Some (JArr []) \<longrightarrow>
             get_prop (Some m) ''top_spike_category'' = Inr (Some JNull)))
    \<and> metric (snd (dashboard_summary e)) ''income''
        = body_field (fst (dashboard_summary e)) ''income''
    \<and> metric (snd (dashboard_summary e)) ''baseline''
        = body_field (fst (dashboard_summary e)) ''baseline''
    \<and> Inr (metric (snd (dashboard_summary e)) ''credit_utilization'')
        = get_prop (body_field (fst (dashboard_summary e)) ''credit'') ''utilization''
    \<and> Inr (metric (snd (dashboard_summary e)) ''subscriptions_count'')
        = get_prop (body_field (fst (dashboard_summary e)) ''subscriptions'') ''length''
    \<and> (\<exists>s0. get_index0 (body_field (fst (dashboard_summary e)) ''spikes'') = Inr s0
           \<and> metric (snd (dashboard_summary e)) ''top_spike_category''
               = js_or (opt_prop s0 ''category'') (Some JNull))
    \<and> metric (snd (dashboard_summary e)) ''untouchable_pct'' = Some (JNum (1 / 5))
    \<and> (\<forall>xs. body_field (fst (dashboard_summary e)) ''subscriptions'' = Some (JArr xs) \<longrightarrow>
          metric (snd (dashboard_summary e)) ''subscriptions_count''
            = Some (JNum (of_nat (length xs))))
    \<and> (\<forall>fs. body_field (fst (dashboard_summary e)) ''credit'' = Some (JObj fs) \<longrightarrow>
          metric (snd (dashboard_summary e)) ''credit_utilization'' = map_of fs ''utilization'')
    \<and> (body_field (fst (dashboard_summary e)) ''spikes'' = Some (JArr []) \<longrightarrow>
          metric (snd (dashboard_summary e)) ''top_spike_category'' = Some JNull)
    \<and> (\<forall>fs rest c. body_field (fst (dashboard_summary e)) ''spikes'' = Some (JArr (JObj fs # rest))
          \<and> map_of fs ''category'' = Some (JStr c) \<and> c \<noteq> [] \<longrightarrow>
          metric (snd (dashboard_summary e)) ''top_spike_category'' = Some (JStr c))
    \<and> (\<forall>txns. ledger e = Inr txns \<longrightarrow>
          (isl (upstream e Subscriptions (summary_payload e txns)) \<longrightarrow>
             metric (snd (dashboard_summary e)) ''subscriptions_count'' = Some (JNum 0))
        \<and> (\<forall>fs xs. upstream e Subscriptions (summary_payload e txns) = Inr (JObj fs)
              \<and> map_of fs ''subscriptions'' = Some (JArr xs) \<longrightarrow>
             metric (snd (dashboard_summary e)) ''subscriptions_count''
               = Some (JNum (of_nat (length xs))))
        \<and> (isl (upstream e Spikes (summary_payload e txns)) \<longrightarrow>
             metric (snd (dashboard_summary e)) ''top_spike_category'' = Some JNull)
        \<and> (\<forall>fs gs rest c. upstream e Spikes (summary_payload e txns) = Inr (JObj fs)
              \<and> map_of fs ''spikes'' = Some (JArr (JObj gs # rest))
              \<and> map_of gs ''category'' = Some (JStr c) \<and> c \<noteq> [] \<longrightarrow>
             metric (snd (dashboard_summary e)) ''top_spike_category'' = Some (JStr c)))
    \<and> (\<forall>q fs g. Issued CreditRepayment q \<in> set (snd (dashboard_summary e))
          \<and> upstream e CreditRepayment q = Inr (JObj fs)
          \<and> map_of fs ''guardrails'' = Some (JObj g) \<longrightarrow>
          metric (snd (dashboard_summary e)) ''credit_utilization'' = map_of g ''utilization'')
    \<and> ((\<forall>q. Issued CreditRepayment q \<in> set (snd (dashboard_summary e)) \<longrightarrow>
            isl (upstream e CreditRepayment q)) \<longrightarrow>
          metric (snd (dashboard_summary e)) ''credit_utilization'' = Some (JNum 39))"
proof -
  from assms obtain txns subs spikes movers m where
    l: "ledger e = Inr txns" and
    subs: "reduce_settled ''subscriptions'' (upstream e Subscriptions (summary_payload e txns)) = Inr subs" and
    spikes: "reduce_settled ''spikes'' (upstream e Spikes (summary_payload e txns)) = Inr spikes" and
    movers: "reduce_settled ''movers'' (upstream e Movers (summary_payload e txns)) = Inr movers" and
    m: "narrative_metrics
       (monthlyIncomeArray (zone e) (current_time e) (map normalize (tx_or_fixture e txns)))
       (monthlyBaselineSpendArray (zone e) (current_time e) (map normalize (tx_or_fixture e txns)))
       (fst (credit_guardrails e)) subs spikes = Inr m" and
    tr: "snd (dashboard_summary e) =
       (TransactionsRead # group_events (summary_payload e txns)) @ snd (credit_guardrails e)
         @ [Issued Narrative (Json (obj [(''metrics'', Some m)])), Settled [Narrative]]"
    by (rule narrative_issue_shape)
  let ?r = "fst (dashboard_summary e)"
  let ?tr = "snd (dashboard_summary e)"
  let ?inc = "monthlyIncomeArray (zone e) (current_time e) (map normalize (tx_or_fixture e txns))"
  let ?base = "monthlyBaselineSpendArray (zone e) (current_time e) (map normalize (tx_or_fixture e txns))"
  note f = dashboard_body_field [OF l subs spikes movers]
  have fi: "body_field ?r ''income'' = num ?inc" by (simp add: f)
  have fb: "body_field ?r ''baseline'' = num ?base" by (simp add: f)
  have fc: "body_field ?r ''credit'' = fst (credit_guardrails e)" by (simp add: f)
  have fs: "body_field ?r ''subscriptions'' = subs" by (simp add: f)
  have fp: "body_field ?r ''spikes'' = spikes" by (simp add: f)
  from credit_guardrails_trace [of e]
  have trace_facts: "in_flight (before_issue Narrative ?tr) = []
    \<and> issued Subscriptions (before_issue Narrative ?tr)
    \<and> issued Spikes (before_issue Narrative ?tr)
    \<and> issued Movers (before_issue Narrative ?tr)
    \<and> AccountRead \<in> set (before_issue Narrative ?tr)
    \<and> \<not> issued CreditRepayment (from_issue Narrative ?tr)"
    by (auto simp: tr group_events_def before_issue_def from_issue_def in_flight_def issued_def)
  from credit_guardrails_trace [of e]
  have from_n: "from_issue Narrative ?tr =
             [Issued Narrative (Json (obj [(''metrics'', Some m)])), Settled [Narrative]]"
    by (auto simp: tr group_events_def from_issue_def)
  have mt: "\<And>k. metric ?tr k = member_of m k"
    by (rule metric_of_trace [OF from_n])
  note mm = narrative_metrics_members [OF m]
  have old: "\<exists>inc base m.
          body_field ?r ''income'' = num inc
        \<and> body_field ?r ''baseline'' = num base
        \<and> narrative_metrics inc base (body_field ?r ''credit'') (body_field ?r ''subscriptions'')
             (body_field ?r ''spikes'') = Inr m
        \<and> from_issue Narrative ?tr =
             [Issued Narrative (Json (obj [(''metrics'', Some m)])), Settled [Narrative]]
        \<and> (body_field ?r ''spikes'' = Some (JArr []) \<longrightarrow>
             get_prop (Some m) ''top_spike_category'' = Inr (Some JNull))"
  proof (rule exI [of _ ?inc], rule exI [of _ ?base], rule exI [of _ m])
    show "body_field ?r ''income'' = num ?inc
        \<and> body_field ?r ''baseline'' = num ?base
        \<and> narrative_metrics ?inc ?base (body_field ?r ''credit'')
             (body_field ?r ''subscriptions'') (body_field ?r ''spikes'') = Inr m
        \<and> from_issue Narrative ?tr =
             [Issued Narrative (Json (obj [(''metrics'', Some m)])), Settled [Narrative]]
        \<and> (body_field ?r ''spikes'' = Some (JArr []) \<longrightarrow>
             get_prop (Some m) ''top_spike_category'' = Inr (Some JNull))"
      using m from_n
        narrative_metrics_no_spikes [of ?inc ?base "fst (credit_guardrails e)" subs m]
      by (auto simp: fi fb fc fs fp)
  qed
  have c1: "metric ?tr ''income'' = body_field ?r ''income''"
    by (simp add: mt mm fi)
  have c2: "metric ?tr ''baseline'' = body_field ?r ''baseline''"
    by (simp add: mt mm fb)
  have c3: "Inr (metric ?tr ''credit_utilization'') = get_prop (body_field ?r ''credit'') ''utilization''"
    by (simp add: mt mm fc)
  have c4: "Inr (metric ?tr ''subscriptions_count'') = get_prop (body_field ?r ''subscriptions'') ''length''"
    by (simp add: mt mm fs)
  have c5: "\<exists>s0. get_index0 (body_field ?r ''spikes'') = Inr s0
           \<and> metric ?tr ''top_spike_category'' = js_or (opt_prop s0 ''category'') (Some JNull)"
    using mm(5) by (simp add: mt fp)
  have c6: "metric ?tr ''untouchable_pct'' = Some (JNum (1 / 5))"
    by (simp add: mt mm)
  have c7: "\<forall>xs. body_field ?r ''subscriptions'' = Some (JArr xs) \<longrightarrow>
          metric ?tr ''subscriptions_count'' = Some (JNum (of_nat (length xs)))"
    using c4 by auto
  have c8: "\<forall>fs. body_field ?r ''credit'' = Some (JObj fs) \<longrightarrow>
          metric ?tr ''credit_utilization'' = map_of fs ''utilization''"
    using c3 by auto
  have c9: "body_field ?r ''spikes'' = Some (JArr []) \<longrightarrow>
          metric ?tr ''top_spike_category'' = Some JNull"
    using c5 by (auto simp: opt_prop_def nullish_def js_or_def)
  have c10: "\<forall>fs rest c. body_field ?r ''spikes'' = Some (JArr (JObj fs # rest))
          \<and> map_of fs ''category'' = Some (JStr c) \<and> c \<noteq> [] \<longrightarrow>
          metric ?tr ''top_spike_category'' = Some (JStr c)"
    using c5 by (auto simp: opt_prop_def nullish_def js_or_def)
  have c11: "\<forall>txns'. ledger e = Inr txns' \<longrightarrow>
          (isl (upstream e Subscriptions (summary_payload e txns')) \<longrightarrow>
             metric ?tr ''subscriptions_count'' = Some (JNum 0))
        \<and> (\<forall>fs xs. upstream e Subscriptions (summary_payload e txns') = Inr (JObj fs)
              \<and> map_of fs ''subscriptions'' = Some (JArr xs) \<longrightarrow>
             metric ?tr ''subscriptions_count'' = Some (JNum (of_nat (length xs))))
        \<and> (isl (upstream e Spikes (summary_payload e txns')) \<longrightarrow>
             metric ?tr ''top_spike_category'' = Some JNull)
        \<and> (\<forall>fs gs rest c. upstream e Spikes (summary_payload e txns') = Inr (JObj fs)
              \<and> map_of fs ''spikes'' = Some (JArr (JObj gs # rest))
              \<and> map_of gs ''category'' = Some (JStr c) \<and> c \<noteq> [] \<longrightarrow>
             metric ?tr ''top_spike_category'' = Some (JStr c))"
  proof (intro allI impI)
    fix txns' assume "ledger e = Inr txns'"
    with l have t: "txns' = txns" by simp
    have a: "isl (upstream e Subscriptions (summary_payload e txns)) \<longrightarrow>
             metric ?tr ''subscriptions_count'' = Some (JNum 0)"
      using subs c7 reduce_settled_rejected [of "upstream e Subscriptions (summary_payload e txns)" "''subscriptions''"]
      by (auto simp: fs)
    have b: "\<forall>fs xs. upstream e Subscriptions (summary_payload e txns) = Inr (JObj fs)
              \<and> map_of fs ''subscriptions'' = Some (JArr xs) \<longrightarrow>
             metric ?tr ''subscriptions_count'' = Some (JNum (of_nat (length xs)))"
      using subs c7 by (auto simp: fs reduce_settled_def)
    have c: "isl (upstream e Spikes (summary_payload e txns)) \<longrightarrow>
             metric ?tr ''top_spike_category'' = Some JNull"
      using spikes c9 reduce_settled_rejected [of "upstream e Spikes (summary_payload e txns)" "''spikes''"]
      by (auto simp: fp)
    have d: "\<forall>fs gs rest c. upstream e Spikes (summary_payload e txns) = Inr (JObj fs)
              \<and> map_of fs ''spikes'' = Some (JArr (JObj gs # rest))
              \<and> map_of gs ''category'' = Some (JStr c) \<and> c \<noteq> [] \<longrightarrow>
             metric ?tr ''top_spike_category'' = Some (JStr c)"
      using spikes c10 by (auto simp: fp reduce_settled_def)
    from a b c d show "(isl (upstream e Subscriptions (summary_payload e txns')) \<longrightarrow>
             metric ?tr ''subscriptions_count'' = Some (JNum 0))
        \<and> (\<forall>fs xs. upstream e Subscriptions (summary_payload e txns') = Inr (JObj fs)
              \<and> map_of fs ''subscriptions'' = Some (JArr xs) \<longrightarrow>
             metric ?tr ''subscriptions_count'' = Some (JNum (of_nat (length xs))))
        \<and> (isl (upstream e Spikes (summary_payload e txns')) \<longrightarrow>
             metric ?tr ''top_spike_category'' = Some JNull)
        \<and> (\<forall>fs gs rest c. upstream e Spikes (summary_payload e txns') = Inr (JObj fs)
              \<and> map_of fs ''spikes'' = Some (JArr (JObj gs # rest))
              \<and> map_of gs ''category'' = Some (JStr c) \<and> c \<noteq> [] \<longrightarrow>
             metric ?tr ''top_spike_category'' = Some (JStr c))"
      unfolding t by blast
  qed
  have credit_issue: "\<And>q. Issued CreditRepayment q \<in> set ?tr \<longleftrightarrow>
      Issued CreditRepayment q \<in> set (snd (credit_guardrails e))"
    by (auto simp: tr group_events_def)
  have c12: "\<forall>q fs g. Issued CreditRepayment q \<in> set ?tr
          \<and> upstream e CreditRepayment q = Inr (JObj fs)
          \<and> map_of fs ''guardrails'' = Some (JObj g) \<longrightarrow>
          metric ?tr ''credit_utilization'' = map_of g ''utilization''"
  proof (intro allI impI)
    fix q fs g
    assume h: "Issued CreditRepayment q \<in> set ?tr
          \<and> upstream e CreditRepayment q = Inr (JObj fs)
          \<and> map_of fs ''guardrails'' = Some (JObj g)"
    then have "fst (credit_guardrails e) = Some (JObj g)"
      by (intro credit_guardrails_value [of q e "JObj fs"]) (simp_all add: credit_issue)
    with c8 show "metric ?tr ''credit_utilization'' = map_of g ''utilization''"
      by (simp add: fc)
  qed
  have c13: "(\<forall>q. Issued CreditRepayment q \<in> set ?tr \<longrightarrow> isl (upstream e CreditRepayment q)) \<longrightarrow>
          metric ?tr ''credit_utilization'' = Some (JNum 39)"
  proof
    assume "\<forall>q. Issued CreditRepayment q \<in> set ?tr \<longrightarrow> isl (upstream e CreditRepayment q)"
    then have "fst (credit_guardrails e) = Some credit_fallback"
      by (intro credit_guardrails_unanswered) (simp add: credit_issue)
    with c8 show "metric ?tr ''credit_utilization'' = Some (JNum 39)"
      by (simp add: fc credit_fallback_def)
  qed
  show ?thesis
    using trace_facts old c1 c2 c3 c4 c5 c6 c7 c8 c9 c10 c11 c12 c13
    by (intro conjI) (erule conjE | assumption)+
qed

theorem narrative_after_branches_witness:
  "issued Narrative (snd (dashboard_summary demo_env))
   \<and> in_flight (before_issue Narrative (snd (dashboard_summary demo_env))) = []
   \<and> issued CreditRepayment (before_issue Narrative (snd (dashboard_summary demo_env)))
   \<and> body_field (fst (dashboard_summary demo_env)) ''subscriptions''
       = Some (JArr [JObj [(''merchant'', JStr ''Gym'')]])
   \<and> metric (snd (dashboard_summary demo_env)) ''subscriptions_count'' = Some (JNum 1)
   \<and> metric (snd (dashboard_summary demo_env)) ''top_spike_category'' = Some (JStr ''dining'')
   \<and> metric (snd (dashboard_summary demo_env)) ''credit_utilization'' = Some (JNum 25)"
proof -
  have h: "issued Narrative (snd (dashboard_summary demo_env))"
    by code_simp
  have c: "issued CreditRepayment (before_issue Narrative (snd (dashboard_summary demo_env)))"
    by code_simp
  have s: "body_field (fst (dashboard_summary demo_env)) ''subscriptions''
       = Some (JArr [JObj [(''merchant'', JStr ''Gym'')]])"
    by code_simp
  have v: "metric (snd (dashboard_summary demo_env)) ''subscriptions_count'' = Some (JNum 1)
   \<and> metric (snd (dashboard_summary demo_env)) ''top_spike_category'' = Some (JStr ''dining'')
   \<and> metric (snd (dashboard_summary demo_env)) ''credit_utilization'' = Some (JNum 25)"
    by code_simp
  from narrative_after_branches [OF h]
  have "in_flight (before_issue Narrative (snd (dashboard_summary demo_env))) = []"
    by (rule conjunct1)
  with h c s v show ?thesis
    by simp
qed

text \<open>
  C7, as amended. When the ledger read succeeds, the three calls for subscriptions,
  spikes and movers go out before the handler waits for any of them, and the handler
  resumes only when all three have settled; the repayment call of the credit
  guardrails is not among them, it goes out only afterwards. A rejected call does not
  end the request: when each call of the group is rejected or answers with a body, the
  handler answers 200 and every fulfilled call's list is in the response.
\<close>

theorem group_joined_not_fail_fast:
  assumes "ledger e = Inr txns"
  shows "issued_without_waiting [Subscriptions, Spikes, Movers] (snd (dashboard_summary e))
    \<and> first_settle (snd (dashboard_summary e)) = Some (Settled [Subscriptions, Spikes, Movers])
    \<and> \<not> issued CreditRepayment (before_first_settle (snd (dashboard_summary e)))
    \<and> (readable (upstream e Subscriptions (summary_payload e txns))
       \<and> readable (upstream e Spikes (summary_payload e txns))
       \<and> readable (upstream e Movers (summary_payload e txns)) \<longrightarrow>
         status (fst (dashboard_summary e)) = 200
       \<and> (\<forall>d. upstream e Subscriptions (summary_payload e txns) = Inr d \<longrightarrow>
             Inr (body_field (fst (dashboard_summary e)) ''subscriptions'')
               = get_prop (Some d) ''subscriptions'')
       \<and> (\<forall>d. upstream e Spikes (summary_payload e txns) = Inr d \<longrightarrow>
             Inr (body_field (fst (dashboard_summary e)) ''spikes'') = get_prop (Some d) ''spikes'')
       \<and> (\<forall>d. upstream e Movers (summary_payload e txns) = Inr d \<longrightarrow>
             Inr (body_field (fst (dashboard_summary e)) ''movers'') = get_prop (Some d) ''movers''))"
proof -
  from dashboard_trace_cases [OF assms] obtain rest where
    "snd (dashboard_summary e) = TransactionsRead # group_events (summary_payload e txns) @ rest"
    by blast
  then have order: "issued_without_waiting [Subscriptions, Spikes, Movers] (snd (dashboard_summary e))
    \<and> first_settle (snd (dashboard_summary e)) = Some (Settled [Subscriptions, Spikes, Movers])
    \<and> \<not> issued CreditRepayment (before_first_settle (snd (dashboard_summary e)))"
    by (simp add: group_events_facts issued_without_waiting_def issued_def)
  have join: "status (fst (dashboard_summary e)) = 200
       \<and> (\<forall>d. upstream e Subscriptions (summary_payload e txns) = Inr d \<longrightarrow>
             Inr (body_field (fst (dashboard_summary e)) ''subscriptions'')
               = get_prop (Some d) ''subscriptions'')
       \<and> (\<forall>d. upstream e Spikes (summary_payload e txns) = Inr d \<longrightarrow>
             Inr (body_field (fst (dashboard_summary e)) ''spikes'') = get_prop (Some d) ''spikes'')
       \<and> (\<forall>d. upstream e Movers (summary_payload e txns) = Inr d \<longrightarrow>
             Inr (body_field (fst (dashboard_summary e)) ''movers'') = get_prop (Some d) ''movers'')"
    if r: "readable (upstream e Subscriptions (summary_payload e txns))
       \<and> readable (upstream e Spikes (summary_payload e txns))
       \<and> readable (upstream e Movers (summary_payload e txns))"
  proof -
    obtain subs where subs:
      "reduce_settled ''subscriptions'' (upstream e Subscriptions (summary_payload e txns)) = Inr subs"
      using reduce_settled_readable r by blast
    obtain spikes where spikes:
      "reduce_settled ''spikes'' (upstream e Spikes (summary_payload e txns)) = Inr spikes"
      using reduce_settled_readable r by blast
    obtain movers where movers:
      "reduce_settled ''movers'' (upstream e Movers (summary_payload e txns)) = Inr movers"
      using reduce_settled_readable r by blast
    note shape = dashboard_summary_reduced [OF assms subs spikes movers]
    note f = dashboard_body_field [OF assms subs spikes movers]
    have st: "status (fst (dashboard_summary e)) = 200"
      by (simp add: shape Let_def res_json_def)
    have a: "\<forall>d. upstream e Subscriptions (summary_payload e txns) = Inr d \<longrightarrow>
             Inr (body_field (fst (dashboard_summary e)) ''subscriptions'')
               = get_prop (Some d) ''subscriptions''"
      using subs by (auto simp: f reduce_settled_fulfilled)
    have b: "\<forall>d. upstream e Spikes (summary_payload e txns) = Inr d \<longrightarrow>
             Inr (body_field (fst (dashboard_summary e)) ''spikes'') = get_prop (Some d) ''spikes''"
      using spikes by (auto simp: f reduce_settled_fulfilled)
    have c: "\<forall>d. upstream e Movers (summary_payload e txns) = Inr d \<longrightarrow>
             Inr (body_field (fst (dashboard_summary e)) ''movers'') = get_prop (Some d) ''movers''"
      using movers by (auto simp: f reduce_settled_fulfilled)
    from st a b c show ?thesis by blast
  qed
  from order join show ?thesis
    by blast
qed

theorem group_joined_not_fail_fast_witness:
  "ledger subs_down_env = Inr []
   \<and> isl (upstream subs_down_env Subscriptions (summary_payload subs_down_env []))
   \<and> first_settle (snd (dashboard_summary subs_down_env))
       = Some (Settled [Subscriptions, Spikes, Movers])
   \<and> \<not> issued CreditRepayment (before_first_settle (snd (dashboard_summary subs_down_env)))
   \<and> status (fst (dashboard_summary subs_down_env)) = 200
   \<and> body_field (fst (dashboard_summary subs_down_env)) ''spikes''
       = Some (JArr [JObj [(''category'', JStr ''dining'')]])"
proof -
  have l: "ledger subs_down_env = Inr []"
    by (simp add: subs_down_env_def demo_env_def)
  have r: "isl (upstream subs_down_env Subscriptions (summary_payload subs_down_env []))
     \<and> readable (upstream subs_down_env Subscriptions (summary_payload subs_down_env []))
     \<and> readable (upstream subs_down_env Spikes (summary_payload subs_down_env []))
     \<and> readable (upstream subs_down_env Movers (summary_payload subs_down_env []))
     \<and> upstream subs_down_env Spikes (summary_payload subs_down_env [])
         = Inr (JObj [(''spikes'', JArr [JObj [(''category'', JStr ''dining'')]])])"
    by (simp add: subs_down_env_def demo_env_def readable_def healthy_upstream_def)
  from group_joined_not_fail_fast [OF l] r l show ?thesis
    by auto
qed

text \<open>
  C7 as stated fails: the repayment call of the credit guardrails is made, but not
  before the handler has waited for the group.
\<close>

theorem credit_not_in_group:
  "issued CreditRepayment (snd (dashboard_summary demo_env))
   \<and> \<not> issued_without_waiting [Subscriptions, Spikes, Movers, CreditRepayment]
         (snd (dashboard_summary demo_env))"
  by code_simp

section \<open>Properties of the credit simulation\<close>

lemma map_of_fields_defined:
  "\<forall>kv\<in>set fs. snd kv \<noteq> None \<Longrightarrow>
   map_of (List.map_filter (\<lambda>(k, v). map_option (Pair k) v) fs) k =
     (case map_of fs k of None \<Rightarrow> None | Some v \<Rightarrow> v)"
  by (induction fs) (auto simp: List.map_filter_simps split: option.splits)

lemma update_defined:
  "\<forall>kv\<in>set al. snd kv \<noteq> None \<Longrightarrow> v \<noteq> None \<Longrightarrow>
   \<forall>kv\<in>set (AList.update k v al). snd kv \<noteq> None"
  by (induction al) auto

lemma map_of_all_defined:
  "map_of (map (\<lambda>(k, v). (k, Some v)) xs) k = map_option Some (map_of xs k)"
  by (induction xs) auto

lemma body_field_with_explanation:
  "x \<noteq> None \<Longrightarrow>
   body_field (res_json (with_explanation d x)) k =
     (if k = ''explanation'' then x else map_of (spread d) k)"
proof -
  assume x: "x \<noteq> None"
  let ?fs = "AList.update ''explanation'' x (map (\<lambda>(k, v). (k, Some v)) (spread d))"
  have "\<forall>kv\<in>set ?fs. snd kv \<noteq> None"
    using x by (intro update_defined) auto
  then have "map_of (List.map_filter (\<lambda>(k, v). map_option (Pair k) v) ?fs) k =
     (case map_of ?fs k of None \<Rightarrow> None | Some v \<Rightarrow> v)"
    by (rule map_of_fields_defined)
  moreover have "map_of (map (\<lambda>(k, v). (k, Some v)) (spread d)) k = map_option Some (map_of (spread d) k)"
    by (rule map_of_all_defined)
  ultimately show ?thesis
    by (auto simp: body_field_def res_json_def with_explanation_def obj_def AList.update_conv'
        split: option.splits)
qed

lemma explain_trace:
  "snd (explain e bal a d) = [] \<or>
   (\<exists>p. snd (explain e bal a d) = [Issued ExplainCredit (Json p), Settled [ExplainCredit]])"
  by (auto simp: explain_def Let_def split: sum.splits)

lemma explain_rejected:
  "\<forall>x. isl (upstream e ExplainCredit x) \<Longrightarrow> fst (explain e bal a d) = Some JNull"
  by (auto simp: explain_def Let_def split: sum.splits dest: rejected_not_fulfilled)

lemma get_prop_null: "get_prop (Some JNull) k = Inl (type_error ''null'')"
  by simp

lemma get_prop_not_null: "b \<noteq> JNull \<Longrightarrow> get_prop (Some b) k = Inr (opt_prop (Some b) k)"
  by (cases b) (simp_all add: opt_prop_def nullish_def)

lemma credit_simulate_null_body:
  "req_body e = JNull \<Longrightarrow> credit_simulate e = (simulation_failed, [])"
  by (simp add: credit_simulate_def)

lemma credit_simulate_body:
  assumes "req_body e \<noteq> JNull"
  shows "credit_simulate e =
    (let bal = opt_prop (Some (req_body e)) ''balance'';
         apr_v = opt_prop (Some (req_body e)) ''apr'';
         payload = Json (simulate_payload bal apr_v
                     (opt_prop (Some (req_body e)) ''min_payment'')
                     (opt_prop (Some (req_body e)) ''extra_payment'')
                     (opt_prop (Some (req_body e)) ''credit_limit''));
         tr = [Issued CreditRepayment payload, Settled [CreditRepayment]]
     in case upstream e CreditRepayment payload of
          Inl _ \<Rightarrow> (simulation_failed, tr)
        | Inr d \<Rightarrow>
            (res_json (with_explanation d (fst (explain e bal apr_v d))),
             tr @ snd (explain e bal apr_v d)))"
  by (simp add: credit_simulate_def get_prop_not_null [OF assms] Let_def case_prod_unfold
      split: sum.splits)

lemma credit_simulate_cases:
  "credit_simulate e = (simulation_failed, [])
   \<or> (\<exists>q. isl (upstream e CreditRepayment q)
          \<and> credit_simulate e =
              (simulation_failed, [Issued CreditRepayment q, Settled [CreditRepayment]]))
   \<or> (\<exists>q d bal a. upstream e CreditRepayment q = Inr d
          \<and> credit_simulate e =
              (res_json (with_explanation d (fst (explain e bal a d))),
               [Issued CreditRepayment q, Settled [CreditRepayment]] @ snd (explain e bal a d)))"
proof (cases "req_body e = JNull")
  case True
  then show ?thesis
    by (simp add: credit_simulate_null_body)
next
  case False
  show ?thesis
    unfolding credit_simulate_body [OF False] Let_def
    by (cases "upstream e CreditRepayment (Json (simulate_payload
          (opt_prop (Some (req_body e)) ''balance'') (opt_prop (Some (req_body e)) ''apr'')
          (opt_prop (Some (req_body e)) ''min_payment'')
          (opt_prop (Some (req_body e)) ''extra_payment'')
          (opt_prop (Some (req_body e)) ''credit_limit'')))") auto
qed

text \<open>
  What holds of the chain. When every simulation call that goes out is rejected, the
  handler answers 500 \<open>Credit simulation failed\<close> and the explainer is never called.
  When the simulation call is fulfilled with a body \<open>d\<close> and the call of the explainer
  is rejected, the handler answers 200 with the members of \<open>d\<close>, its \<open>simulation\<close>
  and \<open>guardrails\<close> among them, and \<open>explanation: null\<close>.
\<close>

lemma simulate_then_explain:
  "((\<forall>q. Issued CreditRepayment q \<in> set (snd (credit_simulate e)) \<longrightarrow>
        isl (upstream e CreditRepayment q)) \<longrightarrow>
      fst (credit_simulate e) = simulation_failed
      \<and> \<not> issued ExplainCredit (snd (credit_simulate e)))
   \<and> (Issued CreditRepayment q \<in> set (snd (credit_simulate e))
      \<and> upstream e CreditRepayment q = Inr d
      \<and> (\<forall>x. isl (upstream e ExplainCredit x)) \<longrightarrow>
      status (fst (credit_simulate e)) = 200
      \<and> body (fst (credit_simulate e)) = with_explanation d (Some JNull)
      \<and> body_field (fst (credit_simulate e)) ''explanation'' = Some JNull
      \<and> body_field (fst (credit_simulate e)) ''simulation'' = map_of (spread d) ''simulation''
      \<and> body_field (fst (credit_simulate e)) ''guardrails'' = map_of (spread d) ''guardrails'')"
proof -
  have part1: "fst (credit_simulate e) = simulation_failed
      \<and> \<not> issued ExplainCredit (snd (credit_simulate e))"
    if "\<forall>q. Issued CreditRepayment q \<in> set (snd (credit_simulate e)) \<longrightarrow>
        isl (upstream e CreditRepayment q)"
    using credit_simulate_cases [of e] that by (auto simp: issued_def)
  have part2: "status (fst (credit_simulate e)) = 200
      \<and> body (fst (credit_simulate e)) = with_explanation d (Some JNull)
      \<and> body_field (fst (credit_simulate e)) ''explanation'' = Some JNull
      \<and> body_field (fst (credit_simulate e)) ''simulation'' = map_of (spread d) ''simulation''
      \<and> body_field (fst (credit_simulate e)) ''guardrails'' = map_of (spread d) ''guardrails''"
    if h: "Issued CreditRepayment q \<in> set (snd (credit_simulate e))
      \<and> upstream e CreditRepayment q = Inr d
      \<and> (\<forall>x. isl (upstream e ExplainCredit x))"
  proof -
    from h have ex: "\<And>bal a d'. fst (explain e bal a d') = Some JNull"
      by (simp add: explain_rejected)
    have res: "fst (credit_simulate e) = res_json (with_explanation d (Some JNull))"
      using credit_simulate_cases [of e]
    proof (elim disjE exE conjE)
      assume "credit_simulate e = (simulation_failed, [])"
      with h show ?thesis by simp
    next
      fix q' assume "isl (upstream e CreditRepayment q')"
        "credit_simulate e = (simulation_failed, [Issued CreditRepayment q', Settled [CreditRepayment]])"
      with h show ?thesis by auto
    next
      fix q' d' bal a
      assume u: "upstream e CreditRepayment q' = Inr d'"
        and c: "credit_simulate e =
              (res_json (with_explanation d' (fst (explain e bal a d'))),
               [Issued CreditRepayment q', Settled [CreditRepayment]] @ snd (explain e bal a d'))"
      from h c explain_trace [of e bal a d'] have "q = q'"
        by auto
      with h u have "d' = d" by simp
      with c show ?thesis by (simp add: ex)
    qed
    show ?thesis
      by (simp add: res body_field_with_explanation) (simp add: res_json_def)
  qed
  from part1 part2 show ?thesis
    by blast
qed

text \<open>
  C3. The claim fails on a provider that fails by answering 2xx with a body that is
  not the expected one. With the simulator answering 200 with the body \<open>null\<close>, the
  reads of \<open>sim.data.simulation\<close> throw inside the inner \<open>try\<close>, and the handler
  answers 200 with \<open>{explanation: null}\<close> instead of failing. With the explainer
  answering 200 with \<open>{}\<close>, \<open>explanation\<close> is \<open>undefined\<close> and the response has no
  member \<open>explanation\<close> instead of \<open>explanation: null\<close>.
\<close>

theorem simulate_malformed_bodies:
  "upstream simulator_null_env CreditRepayment
       (Json (simulate_payload (Some (JNum 780)) (Some (JNum (2399 / 100))) (Some (JNum 35))
                (Some (JNum 50)) (Some (JNum 2000)))) = Inr JNull
   \<and> status (fst (credit_simulate simulator_null_env)) = 200
   \<and> body (fst (credit_simulate simulator_null_env)) = JObj [(''explanation'', JNull)]
   \<and> \<not> issued ExplainCredit (snd (credit_simulate simulator_null_env))
   \<and> issued ExplainCredit (snd (credit_simulate explainer_empty_env))
   \<and> status (fst (credit_simulate explainer_empty_env)) = 200
   \<and> has_key (fst (credit_simulate explainer_empty_env)) ''simulation''
   \<and> \<not> has_key (fst (credit_simulate explainer_empty_env)) ''explanation''"
  by code_simp

section \<open>Properties of the insurance assessment\<close>

text \<open>
  C8. The route answers every request with status 200. When the provider call is
  rejected, or is fulfilled with a body that has no array \<open>suggestions\<close>, the body of
  the answer is \<open>{suggestions: []}\<close>. The provider is called once: the handler
  registered second for the route never runs.
\<close>

theorem insurance_never_errors:
  "(\<exists>r. fst (post_insurance_assess e) = Some (Sent r) \<and> status r = 200)
   \<and> (isl (upstream e InsuranceNudge (Json (req_body e))) \<longrightarrow>
        fst (post_insurance_assess e) = Some (Sent no_suggestions))
   \<and> (\<forall>d. upstream e InsuranceNudge (Json (req_body e)) = Inr d
          \<and> \<not> isArray (opt_prop (Some d) ''suggestions'') \<longrightarrow>
        fst (post_insurance_assess e) = Some (Sent no_suggestions))
   \<and> snd (post_insurance_assess e)
       = [Issued InsuranceNudge (Json (req_body e)), Settled [InsuranceNudge]]"
  by (cases "upstream e InsuranceNudge (Json (req_body e))")
     (auto simp: post_insurance_assess_def insurance_assess_def Let_def res_json_def
        res_status_json_def no_suggestions_def obj_def List.map_filter_simps)

theorem insurance_never_errors_witness:
  "isl (upstream insurance_down_env InsuranceNudge (Json (req_body insurance_down_env)))
   \<and> fst (post_insurance_assess insurance_down_env) = Some (Sent no_suggestions)
   \<and> status no_suggestions = 200"
proof -
  have h: "isl (upstream insurance_down_env InsuranceNudge (Json (req_body insurance_down_env)))"
    by (simp add: insurance_down_env_def demo_env_def)
  from insurance_never_errors [of insurance_down_env] h show ?thesis
    by (simp add: no_suggestions_def)
qed

section \<open>Properties of the untouchable forecast\<close>

lemma budgets_untouchable_null_body:
  "req_body e = JNull \<Longrightarrow>
   budgets_untouchable e b = ((NoReply (type_error ''null''), b), [])"
  by (simp add: budgets_untouchable_def)

lemma budgets_untouchable_ledger_failure:
  "req_body e \<noteq> JNull \<Longrightarrow> ledger e = Inl err \<Longrightarrow>
   budgets_untouchable e b = ((NoReply err, b), [TransactionsRead])"
  by (simp add: budgets_untouchable_def get_prop_not_null)

lemma budgets_untouchable_called:
  assumes "req_body e \<noteq> JNull" and "ledger e = Inr txns"
  shows "budgets_untouchable e b =
    (let percent = opt_prop (Some (req_body e)) ''percent'';
         tr = [TransactionsRead, Issued Forecast (forecast_call e txns), Settled [Forecast]]
     in case upstream e Forecast (forecast_call e txns) of
          Inl err \<Rightarrow> ((NoReply err, b), tr)
        | Inr d \<Rightarrow>
            (case fst (budget_upsert e (user_id e) percent b) of
               Some err \<Rightarrow> (NoReply err, snd (budget_upsert e (user_id e) percent b))
             | None \<Rightarrow> (Sent (res_json d), snd (budget_upsert e (user_id e) percent b)),
             tr @ [BudgetUpsert (user_id e) percent]))"
  using assms
  by (simp add: budgets_untouchable_def get_prop_not_null forecast_call_def Let_def
      split: sum.splits prod.splits option.splits)

text \<open>
  C10. When every forecast call that goes out is rejected, the budget table is left as
  it was, \<open>prisma.budget.upsert\<close> is not reached, and the handler ends without a
  response. Conversely, when the upsert is reached the forecast call was fulfilled,
  and unless the upsert throws its body is sent to the caller.
\<close>

theorem budget_kept_on_forecast_failure:
  "((\<forall>q. Issued Forecast q \<in> set (snd (budgets_untouchable e b)) \<longrightarrow>
        isl (upstream e Forecast q)) \<longrightarrow>
      snd (fst (budgets_untouchable e b)) = b
      \<and> (\<forall>u v. BudgetUpsert u v \<notin> set (snd (budgets_untouchable e b)))
      \<and> (\<exists>err. fst (fst (budgets_untouchable e b)) = NoReply err))
   \<and> ((\<exists>u v. BudgetUpsert u v \<in> set (snd (budgets_untouchable e b))) \<longrightarrow>
      (\<exists>q d. Issued Forecast q \<in> set (snd (budgets_untouchable e b))
         \<and> upstream e Forecast q = Inr d
         \<and> (fst (budget_upsert e (user_id e) (opt_prop (Some (req_body e)) ''percent'') b) = None
              \<longrightarrow> fst (fst (budgets_untouchable e b)) = Sent (res_json d))))"
proof (cases "req_body e = JNull")
  case True
  then show ?thesis
    by (simp add: budgets_untouchable_null_body)
next
  case False
  show ?thesis
  proof (cases "ledger e")
    case (Inl err)
    with False show ?thesis
      by (simp add: budgets_untouchable_ledger_failure)
  next
    case (Inr txns)
    show ?thesis
      by (cases "upstream e Forecast (forecast_call e txns)")
         (auto simp: budgets_untouchable_called [OF False Inr] Let_def split: option.splits)
  qed
qed

theorem budget_kept_on_forecast_failure_witness:
  "upstream forecast_down_env Forecast = (\<lambda>p. Inl timeout_error)
   \<and> issued Forecast (snd (budgets_untouchable forecast_down_env seeded_budgets))
   \<and> snd (fst (budgets_untouchable forecast_down_env seeded_budgets)) ''u1'' = Some (1 / 5)
   \<and> fst (fst (budgets_untouchable forecast_down_env seeded_budgets)) = NoReply timeout_error"
proof -
  have u: "upstream forecast_down_env Forecast = (\<lambda>p. Inl timeout_error)"
    by (simp add: forecast_down_env_def demo_env_def)
  have i: "issued Forecast (snd (budgets_untouchable forecast_down_env seeded_budgets))"
    by code_simp
  have r: "fst (fst (budgets_untouchable forecast_down_env seeded_budgets)) = NoReply timeout_error"
    by code_simp
  from budget_kept_on_forecast_failure [of forecast_down_env seeded_budgets] u
  have "snd (fst (budgets_untouchable forecast_down_env seeded_budgets)) = seeded_budgets"
    by simp
  with u i r show ?thesis
    by (simp add: seeded_budgets_def)
qed

text \<open>
  C9, as amended. The handler does not validate \<open>percent\<close>. For a request whose body
  has no \<open>percent\<close>, once the rows are read it calls the forecast provider, with
  \<open>untouchable_pct\<close> left out of the request body; when that call is fulfilled it
  goes on to the budget upsert with an undefined percent and, if the upsert does not
  throw, answers 200 with the provider's body. A response the handler sends never has
  an error status.
\<close>

theorem untouchable_without_percent:
  assumes "get_prop (Some (req_body e)) ''percent'' = Inr None" and "ledger e = Inr txns"
  shows "take 3 (snd (budgets_untouchable e b))
           = [TransactionsRead, Issued Forecast (forecast_call e txns), Settled [Forecast]]
       \<and> (\<exists>q. forecast_call e txns = Json q \<and> get_prop (Some q) ''untouchable_pct'' = Inr None)
       \<and> (\<forall>d. upstream e Forecast (forecast_call e txns) = Inr d \<longrightarrow>
             BudgetUpsert (user_id e) None \<in> set (snd (budgets_untouchable e b))
           \<and> (fst (budget_upsert e (user_id e) None b) = None \<longrightarrow>
                fst (fst (budgets_untouchable e b)) = Sent (res_json d)))
       \<and> (\<forall>r. fst (fst (budgets_untouchable e b)) = Sent r \<longrightarrow> status r = 200)"
proof -
  from assms(1) have nn: "req_body e \<noteq> JNull"
    by auto
  with assms(1) have p: "opt_prop (Some (req_body e)) ''percent'' = None"
    by (simp add: get_prop_not_null)
  note shape = budgets_untouchable_called [OF nn assms(2), of b]
  have t: "take 3 (snd (budgets_untouchable e b))
           = [TransactionsRead, Issued Forecast (forecast_call e txns), Settled [Forecast]]"
    by (cases "upstream e Forecast (forecast_call e txns)") (simp_all add: shape Let_def)
  have q: "\<exists>q. forecast_call e txns = Json q \<and> get_prop (Some q) ''untouchable_pct'' = Inr None"
    by (cases "opt_prop (Some (req_body e)) ''starting_savings''")
       (simp_all add: forecast_call_def forecast_payload_def p obj_def List.map_filter_simps
          num_def with_default_def)
  have u: "\<forall>d. upstream e Forecast (forecast_call e txns) = Inr d \<longrightarrow>
             BudgetUpsert (user_id e) None \<in> set (snd (budgets_untouchable e b))
           \<and> (fst (budget_upsert e (user_id e) None b) = None \<longrightarrow>
                fst (fst (budgets_untouchable e b)) = Sent (res_json d))"
    by (auto simp: shape Let_def p)
  have s: "\<forall>r. fst (fst (budgets_untouchable e b)) = Sent r \<longrightarrow> status r = 200"
    by (cases "upstream e Forecast (forecast_call e txns)")
       (auto simp: shape Let_def res_json_def split: option.splits)
  from t q u s show ?thesis
    by blast
qed

theorem untouchable_without_percent_witness:
  "get_prop (Some (req_body demo_env)) ''percent'' = Inr None
   \<and> ledger demo_env = Inr []
   \<and> take 3 (snd (budgets_untouchable demo_env seeded_budgets))
       = [TransactionsRead, Issued Forecast (forecast_call demo_env []), Settled [Forecast]]"
proof -
  have h: "get_prop (Some (req_body demo_env)) ''percent'' = Inr None"
    by (simp add: demo_env_def)
  have l: "ledger demo_env = Inr []"
    by (simp add: demo_env_def)
  from untouchable_without_percent [OF h l, of seeded_budgets] h l show ?thesis
    by blast
qed

text \<open>
  C9 as stated fails: a request with an empty body, for a user who has a budget row,
  reaches the forecast provider, with a request body that has no \<open>untouchable_pct\<close>,
  and then the upsert.
\<close>

theorem untouchable_unvalidated:
  "get_prop (Some (req_body demo_env)) ''percent'' = Inr None
   \<and> issued Forecast (snd (budgets_untouchable demo_env seeded_budgets))
   \<and> take 3 (snd (budgets_untouchable demo_env seeded_budgets))
       = [TransactionsRead,
          Issued Forecast
            (Json (JObj [(''monthly_income'', JNum 0), (''monthly_baseline_spend'', JNum 0),
                         (''starting_savings'', JNum 350), (''months'', JNum 6)])),
          Settled [Forecast]]
   \<and> BudgetUpsert ''u1'' None \<in> set (snd (budgets_untouchable demo_env seeded_budgets))"
  by code_simp

end
